theory Spec2Isabelle
  imports Main "HOL-Library.Word"
begin

unbundle bit_operations_syntax

section \<open>Return codes\<close>

text \<open>
  The integer return codes of the backend and of the bignum codec. The numeric values
  live in headers outside the sources at hand; only their identity matters, \<open>RET_OK\<close>
  standing for the return value 0.
\<close>

datatype mbedtls_ret =
    RET_OK
  | MBEDTLS_ERR_ECP_BAD_INPUT_DATA
  | MBEDTLS_ERR_PLATFORM_FEATURE_UNSUPPORTED
  | MBEDTLS_ERR_ECP_INVALID_KEY
  | MBEDTLS_ERR_PLATFORM_HW_ACCEL_FAILED
  | MBEDTLS_ERR_MPI_BUFFER_TOO_SMALL
  | MBEDTLS_ERR_MPI_ALLOC_FAILED

section \<open>Big integers and the little-endian codec\<close>

type_synonym byte = "8 word"

text \<open>A limb: \<open>mbedtls_mpi_uint\<close> is 32 bits wide on the B91 (a 32-bit RISC-V core).\<close>

type_synonym mbedtls_mpi_uint = "32 word"

text \<open>
  \<open>mbedtls_mpi\<close>: sign \<open>s\<close>, limb count \<open>n\<close> and limb pointer \<open>p\<close> (\<open>None\<close> is the
  null pointer). The fields carry the prefix \<open>mpi_\<close> since one-letter record fields
  would capture the variables of every later statement.
\<close>

record mbedtls_mpi =
  mpi_s :: int
  mpi_n :: nat
  mpi_p :: "mbedtls_mpi_uint list option"

definition limbs_of :: "mbedtls_mpi \<Rightarrow> mbedtls_mpi_uint list" where
  "limbs_of X = (case mpi_p X of None \<Rightarrow> [] | Some xs \<Rightarrow> xs)"

text \<open>
  The library invariant under which every limb access of the codec is in range:
  \<open>p\<close> points to exactly \<open>n\<close> limbs (and is null only when \<open>n = 0\<close>), and the sign is
  1 or -1.
\<close>

definition mpi_wf :: "mbedtls_mpi \<Rightarrow> bool" where
  "mpi_wf X \<longleftrightarrow> length (limbs_of X) = mpi_n X \<and> (mpi_s X = 1 \<or> mpi_s X = - 1)"

text \<open>\<open>ciL\<close>: chars in limb, \<open>sizeof(mbedtls_mpi_uint)\<close>.\<close>

definition ciL :: nat where
  "ciL = 4"

text \<open>\<open>GET_BYTE(X, i)\<close>: byte \<open>i\<close> of the limb array, without range checks.\<close>

definition GET_BYTE :: "mbedtls_mpi \<Rightarrow> nat \<Rightarrow> byte" where
  "GET_BYTE X i = ucast (drop_bit ((i mod ciL) * 8) (limbs_of X ! (i div ciL)) AND 0xff)"

definition CHARS_TO_LIMBS :: "nat \<Rightarrow> nat" where
  "CHARS_TO_LIMBS i = i div ciL + (if i mod ciL \<noteq> 0 then 1 else 0)"

text \<open>\<open>memset(buf + off, c, len)\<close> on a buffer held as a list of bytes.\<close>

definition memset_at :: "byte list \<Rightarrow> nat \<Rightarrow> byte \<Rightarrow> nat \<Rightarrow> byte list" where
  "memset_at buf off c len = take off buf @ replicate len c @ drop (off + len) buf"

subsection \<open>\<open>mbedtls_mpi_write_binary_le\<close>\<close>

text \<open>
  The scan of the bytes that do not fit, \<open>for (i = bytes_to_copy; i < stored_bytes; i++)\<close>:
  \<open>False\<close> is the early return of \<open>MBEDTLS_ERR_MPI_BUFFER_TOO_SMALL\<close>.
\<close>

function excess_bytes_zero :: "mbedtls_mpi \<Rightarrow> nat \<Rightarrow> nat \<Rightarrow> bool" where
  "excess_bytes_zero X i stored_bytes =
     (if i < stored_bytes
      then (if GET_BYTE X i \<noteq> 0 then False else excess_bytes_zero X (i + 1) stored_bytes)
      else True)"
  by pat_completeness auto
termination
  by (relation "measure (\<lambda>(X, i, stored_bytes). stored_bytes - i)") auto

declare excess_bytes_zero.simps [simp del]

text \<open>The copy loop, \<open>for (i = 0; i < bytes_to_copy; i++) buf[i] = GET_BYTE(X, i)\<close>.\<close>

function copy_bytes :: "mbedtls_mpi \<Rightarrow> byte list \<Rightarrow> nat \<Rightarrow> nat \<Rightarrow> byte list" where
  "copy_bytes X buf i bytes_to_copy =
     (if i < bytes_to_copy
      then copy_bytes X (buf[i := GET_BYTE X i]) (i + 1) bytes_to_copy
      else buf)"
  by pat_completeness auto
termination
  by (relation "measure (\<lambda>(X, buf, i, bytes_to_copy). bytes_to_copy - i)") auto

declare copy_bytes.simps [simp del]

text \<open>
  The function returns its code together with the buffer as it leaves it. On the error
  path it returns before the first store, so the buffer keeps its previous contents.
  The sizes (\<open>size_t\<close>) are natural numbers: a limb count is bounded by the library far
  below the point where \<open>X->n * ciL\<close> would wrap around.
\<close>

definition mbedtls_mpi_write_binary_le ::
  "mbedtls_mpi \<Rightarrow> byte list \<Rightarrow> nat \<Rightarrow> mbedtls_ret \<times> byte list" where
  "mbedtls_mpi_write_binary_le X buf buflen =
     (let stored_bytes = mpi_n X * ciL in
      if stored_bytes < buflen
      then (RET_OK,
            memset_at (copy_bytes X buf 0 stored_bytes) stored_bytes 0 (buflen - stored_bytes))
      else if excess_bytes_zero X buflen stored_bytes
      then (RET_OK, copy_bytes X buf 0 buflen)
      else (MBEDTLS_ERR_MPI_BUFFER_TOO_SMALL, buf))"

subsection \<open>The value of a byte buffer and of a limb array\<close>

primrec le_val_bytes :: "byte list \<Rightarrow> nat" where
  "le_val_bytes [] = 0"
| "le_val_bytes (b # bs) = unat b + 256 * le_val_bytes bs"

primrec limbs_val :: "mbedtls_mpi_uint list \<Rightarrow> nat" where
  "limbs_val [] = 0"
| "limbs_val (w # ws) = unat w + 2 ^ 32 * limbs_val ws"

definition mpi_value :: "mbedtls_mpi \<Rightarrow> int" where
  "mpi_value X = mpi_s X * int (limbs_val (limbs_of X))"

text \<open>The least number of limbs that can hold a value.\<close>

fun limbs_needed :: "nat \<Rightarrow> nat" where
  "limbs_needed v = (if v = 0 then 0 else 1 + limbs_needed (v div 2 ^ 32))"

declare limbs_needed.simps [simp del]

text \<open>
  The bytes of a limb array in memory order, for stating what the codec does: byte \<open>r\<close>
  of a limb as \<open>GET_BYTE\<close> extracts it, the four bytes of a limb, and the bytes of all limbs.
\<close>

definition limb_byte :: "mbedtls_mpi_uint \<Rightarrow> nat \<Rightarrow> byte" where
  "limb_byte w r = ucast (drop_bit (r * 8) w AND 0xff)"

definition limb_bytes :: "mbedtls_mpi_uint \<Rightarrow> byte list" where
  "limb_bytes w = [limb_byte w 0, limb_byte w 1, limb_byte w 2, limb_byte w 3]"

definition limbs_bytes :: "mbedtls_mpi_uint list \<Rightarrow> byte list" where
  "limbs_bytes ws = concat (map limb_bytes ws)"

subsection \<open>The bignum library functions used by the decoder\<close>

text \<open>
  Modelled from the spec: \<open>mbedtls_mpi_init\<close>, \<open>mbedtls_mpi_free\<close>, \<open>mbedtls_mpi_grow\<close>
  and \<open>mbedtls_mpi_lset\<close> belong to the big-integer library, which the spec names as an
  external collaborator (growing and freeing storage) and which is not part of the sources
  at hand. They are given their documented behaviour: \<open>init\<close> and \<open>free\<close> leave the empty
  number (sign 1, no limbs, null pointer); \<open>grow\<close> enlarges the limb array to at least
  \<open>nblimbs\<close> limbs, keeping the old limbs and zeroing the new ones, or fails with
  \<open>MBEDTLS_ERR_MPI_ALLOC_FAILED\<close> leaving the number untouched; \<open>lset\<close> grows to at least
  one limb, clears every limb and stores the magnitude and sign of \<open>z\<close>. Whether the
  library can provide \<open>k\<close> limbs (its limb limit and the allocator together) is the
  parameter \<open>alloc_ok k\<close>.
\<close>

definition mbedtls_mpi_init :: "mbedtls_mpi \<Rightarrow> mbedtls_mpi" where
  "mbedtls_mpi_init X = \<lparr>mpi_s = 1, mpi_n = 0, mpi_p = None\<rparr>"

definition mbedtls_mpi_free :: "mbedtls_mpi \<Rightarrow> mbedtls_mpi" where
  "mbedtls_mpi_free X = \<lparr>mpi_s = 1, mpi_n = 0, mpi_p = None\<rparr>"

definition mbedtls_mpi_grow ::
  "(nat \<Rightarrow> bool) \<Rightarrow> mbedtls_mpi \<Rightarrow> nat \<Rightarrow> mbedtls_ret \<times> mbedtls_mpi" where
  "mbedtls_mpi_grow alloc X nblimbs =
     (if mpi_n X < nblimbs
      then (if alloc nblimbs
            then (RET_OK,
                  X\<lparr>mpi_n := nblimbs,
                    mpi_p := Some (take (mpi_n X) (limbs_of X) @ replicate (nblimbs - mpi_n X) 0)\<rparr>)
            else (MBEDTLS_ERR_MPI_ALLOC_FAILED, X))
      else (RET_OK, X))"

definition mbedtls_mpi_lset ::
  "(nat \<Rightarrow> bool) \<Rightarrow> mbedtls_mpi \<Rightarrow> int \<Rightarrow> mbedtls_ret \<times> mbedtls_mpi" where
  "mbedtls_mpi_lset alloc X z =
     (case mbedtls_mpi_grow alloc X 1 of
        (RET_OK, X1) \<Rightarrow>
          (RET_OK,
           X1\<lparr>mpi_p := Some ((replicate (mpi_n X1) 0)[0 := word_of_int \<bar>z\<bar>]),
              mpi_s := (if z < 0 then - 1 else 1)\<rparr>)
      | (ret, X1) \<Rightarrow> (ret, X1))"

subsection \<open>\<open>mbedtls_mpi_read_binary_le\<close>\<close>

text \<open>
  The loop \<open>for (i = 0; i < buflen; i++) X->p[i / ciL] |= buf[i] << ((i % ciL) << 3)\<close>
  on the limb array.
\<close>

function or_bytes ::
  "mbedtls_mpi_uint list \<Rightarrow> byte list \<Rightarrow> nat \<Rightarrow> nat \<Rightarrow> mbedtls_mpi_uint list" where
  "or_bytes ls buf i buflen =
     (if i < buflen
      then or_bytes
             (ls[i div ciL := (ls ! (i div ciL)) OR push_bit (push_bit 3 (i mod ciL)) (ucast (buf ! i))])
             buf (i + 1) buflen
      else ls)"
  by pat_completeness auto
termination
  by (relation "measure (\<lambda>(ls, buf, i, buflen). buflen - i)") auto

declare or_bytes.simps [simp del]

text \<open>
  Each \<open>MBEDTLS_MPI_CHK\<close> is a jump to \<open>cleanup\<close> with the failing code; the number is
  returned as the function leaves it.
\<close>

definition mbedtls_mpi_read_binary_le ::
  "(nat \<Rightarrow> bool) \<Rightarrow> mbedtls_mpi \<Rightarrow> byte list \<Rightarrow> nat \<Rightarrow> mbedtls_ret \<times> mbedtls_mpi" where
  "mbedtls_mpi_read_binary_le alloc X buf buflen =
     (let limbs = CHARS_TO_LIMBS buflen;
          (ret1, X1) = (if mpi_n X \<noteq> limbs
                        then mbedtls_mpi_grow alloc (mbedtls_mpi_init (mbedtls_mpi_free X)) limbs
                        else (RET_OK, X))
      in if ret1 \<noteq> RET_OK then (ret1, X1)
         else (let (ret2, X2) = mbedtls_mpi_lset alloc X1 0
               in if ret2 \<noteq> RET_OK then (ret2, X2)
                  else (RET_OK, X2\<lparr>mpi_p := Some (or_bytes (limbs_of X2) buf 0 buflen)\<rparr>)))"

section \<open>Curves, groups and points\<close>

text \<open>
  \<open>mbedtls_ecp_group_id\<close>, the identifiers of the named curves. The enumeration is
  declared in a header outside the sources at hand; the constructors are the identifiers
  the backend file names.
\<close>

datatype mbedtls_ecp_group_id =
    MBEDTLS_ECP_DP_NONE
  | MBEDTLS_ECP_DP_SECP192R1
  | MBEDTLS_ECP_DP_SECP224R1
  | MBEDTLS_ECP_DP_SECP256R1
  | MBEDTLS_ECP_DP_SECP384R1
  | MBEDTLS_ECP_DP_SECP521R1
  | MBEDTLS_ECP_DP_BP256R1
  | MBEDTLS_ECP_DP_BP384R1
  | MBEDTLS_ECP_DP_BP512R1
  | MBEDTLS_ECP_DP_CURVE25519
  | MBEDTLS_ECP_DP_SECP192K1
  | MBEDTLS_ECP_DP_SECP224K1
  | MBEDTLS_ECP_DP_SECP256K1
  | MBEDTLS_ECP_DP_CURVE448

text \<open>
  A point and a group, with the fields the backend reads and writes (prefixed, as for
  \<open>mbedtls_mpi\<close>).
\<close>

record mbedtls_ecp_point =
  pt_X :: mbedtls_mpi
  pt_Y :: mbedtls_mpi
  pt_Z :: mbedtls_mpi

record mbedtls_ecp_group =
  grp_id :: mbedtls_ecp_group_id
  grp_G :: mbedtls_ecp_point
  grp_pbits :: nat

datatype ecp_curve_type =
    ECP_TYPE_NONE
  | ECP_TYPE_SHORT_WEIERSTRASS
  | ECP_TYPE_MONTGOMERY

definition ecp_get_type :: "mbedtls_ecp_group \<Rightarrow> ecp_curve_type" where
  "ecp_get_type grp =
     (if mpi_p (pt_X (grp_G grp)) = None then ECP_TYPE_NONE
      else if mpi_p (pt_Y (grp_G grp)) = None then ECP_TYPE_MONTGOMERY
      else ECP_TYPE_SHORT_WEIERSTRASS)"

subsection \<open>The curve data of the hardware unit\<close>

text \<open>
  The curve records with the fields the file initialises. Every Weierstrass record
  initialises \<open>.eccp_p_h\<close> twice; the later initialiser is the one that takes effect.
\<close>

record eccp_curve_t =
  eccp_p_bitLen :: nat
  eccp_p :: "32 word list"
  eccp_p_h :: "32 word list"
  eccp_a :: "32 word list"
  eccp_b :: "32 word list"

record mont_curve_t =
  mont_p_bitLen :: nat
  mont_p :: "32 word list"
  mont_p_h :: "32 word list"
  mont_p_n1 :: "32 word list"
  mont_a24 :: "32 word list"

definition secp256r1 :: eccp_curve_t where
  "secp256r1 = \<lparr>
     eccp_p_bitLen = 256,
     eccp_p = [0xffffffff, 0xffffffff, 0xffffffff, 0x00000000, 0x00000000, 0x00000000, 0x00000001, 0xffffffff],
     eccp_p_h = [0x00000001],
     eccp_a = [0xfffffffc, 0xffffffff, 0xffffffff, 0x00000000, 0x00000000, 0x00000000, 0x00000001, 0xffffffff],
     eccp_b = [0x27d2604b, 0x3bce3c3e, 0xcc53b0f6, 0x651d06b0, 0x769886bc, 0xb3ebbd55, 0xaa3a93e7, 0x5ac635d8]\<rparr>"

definition secp256k1 :: eccp_curve_t where
  "secp256k1 = \<lparr>
     eccp_p_bitLen = 256,
     eccp_p = [0xfffffc2f, 0xfffffffe, 0xffffffff, 0xffffffff, 0xffffffff, 0xffffffff, 0xffffffff, 0xffffffff],
     eccp_p_h = [0xd2253531],
     eccp_a = [0x00000000, 0x00000000, 0x00000000, 0x00000000, 0x00000000, 0x00000000, 0x00000000, 0x00000000],
     eccp_b = [0x00000007, 0x00000000, 0x00000000, 0x00000000, 0x00000000, 0x00000000, 0x00000000, 0x00000000]\<rparr>"

definition BP256r1 :: eccp_curve_t where
  "BP256r1 = \<lparr>
     eccp_p_bitLen = 256,
     eccp_p = [0x1f6e5377, 0x2013481d, 0xd5262028, 0x6e3bf623, 0x9d838d72, 0x3e660a90, 0xa1eea9bc, 0xa9fb57db],
     eccp_p_h = [0xcefd89b9],
     eccp_a = [0xf330b5d9, 0xe94a4b44, 0x26dc5c6c, 0xfb8055c1, 0x417affe7, 0xeef67530, 0xfc2c3057, 0x7d5a0975],
     eccp_b = [0xff8c07b6, 0x6bccdc18, 0x5cf7e1ce, 0x95841629, 0xbbd77cbf, 0xf330b5d9, 0xe94a4b44, 0x26dc5c6c]\<rparr>"

definition secp224r1 :: eccp_curve_t where
  "secp224r1 = \<lparr>
     eccp_p_bitLen = 224,
     eccp_p = [0x00000001, 0x00000000, 0x00000000, 0xffffffff, 0xffffffff, 0xffffffff, 0xffffffff],
     eccp_p_h = [0xffffffff],
     eccp_a = [0xfffffffe, 0xffffffff, 0xffffffff, 0xfffffffe, 0xffffffff, 0xffffffff, 0xffffffff],
     eccp_b = [0x2355ffb4, 0x270b3943, 0xd7bfd8ba, 0x5044b0b7, 0xf5413256, 0x0c04b3ab, 0xb4050a85]\<rparr>"

definition secp224k1 :: eccp_curve_t where
  "secp224k1 = \<lparr>
     eccp_p_bitLen = 224,
     eccp_p = [0xffffe56d, 0xfffffffe, 0xffffffff, 0xffffffff, 0xffffffff, 0xffffffff, 0xffffffff],
     eccp_p_h = [0x198d139b],
     eccp_a = [0x00000000, 0x00000000, 0x00000000, 0x00000000, 0x00000000, 0x00000000, 0x00000000],
     eccp_b = [0x00000005, 0x00000000, 0x00000000, 0x00000000, 0x00000000, 0x00000000, 0x00000000]\<rparr>"

definition secp192r1 :: eccp_curve_t where
  "secp192r1 = \<lparr>
     eccp_p_bitLen = 192,
     eccp_p = [0xffffffff, 0xffffffff, 0xfffffffe, 0xffffffff, 0xffffffff, 0xffffffff],
     eccp_p_h = [0x00000001],
     eccp_a = [0xfffffffc, 0xffffffff, 0xfffffffe, 0xffffffff, 0xffffffff, 0xffffffff],
     eccp_b = [0xc146b9b1, 0xfeb8deec, 0x72243049, 0x0fa7e9ab, 0xe59c80e7, 0x64210519]\<rparr>"

definition secp192k1 :: eccp_curve_t where
  "secp192k1 = \<lparr>
     eccp_p_bitLen = 192,
     eccp_p = [0xffffee37, 0xfffffffe, 0xffffffff, 0xffffffff, 0xffffffff, 0xffffffff],
     eccp_p_h = [0x7446d879],
     eccp_a = [0x00000000, 0x00000000, 0x00000000, 0x00000000, 0x00000000, 0x00000000],
     eccp_b = [0x00000003, 0x00000000, 0x00000000, 0x00000000, 0x00000000, 0x00000000]\<rparr>"

definition x25519 :: mont_curve_t where
  "x25519 = \<lparr>
     mont_p_bitLen = 255,
     mont_p = [0xffffffed, 0xffffffff, 0xffffffff, 0xffffffff, 0xffffffff, 0xffffffff, 0xffffffff, 0x7fffffff],
     mont_p_h = [0x000005a4, 0x00000000, 0x00000000, 0x00000000, 0x00000000, 0x00000000, 0x00000000, 0x00000000],
     mont_p_n1 = [0x286bca1b],
     mont_a24 = [0x0001db41, 0x00000000, 0x00000000, 0x00000000, 0x00000000, 0x00000000, 0x00000000, 0x00000000]\<rparr>"

subsection \<open>Linking group identifiers to curve data\<close>

text \<open>The two tables, with every curve of the file enabled.\<close>

definition eccp_curve_linking :: "(mbedtls_ecp_group_id \<times> eccp_curve_t) list" where
  "eccp_curve_linking =
     [(MBEDTLS_ECP_DP_SECP256R1, secp256r1),
      (MBEDTLS_ECP_DP_SECP256K1, secp256k1),
      (MBEDTLS_ECP_DP_BP256R1, BP256r1),
      (MBEDTLS_ECP_DP_SECP224R1, secp224r1),
      (MBEDTLS_ECP_DP_SECP224K1, secp224k1),
      (MBEDTLS_ECP_DP_SECP192R1, secp192r1),
      (MBEDTLS_ECP_DP_SECP192K1, secp192k1)]"

definition mont_curve_linking :: "(mbedtls_ecp_group_id \<times> mont_curve_t) list" where
  "mont_curve_linking = [(MBEDTLS_ECP_DP_CURVE25519, x25519)]"

text \<open>
  The scan of a table from its first entry, stopping at the first entry of the group's
  identifier (\<open>break\<close>); \<open>None\<close> is the null pointer the scan starts with.
\<close>

fun curve_scan :: "(mbedtls_ecp_group_id \<times> 'c) list \<Rightarrow> mbedtls_ecp_group_id \<Rightarrow> 'c option" where
  "curve_scan [] gid = None"
| "curve_scan ((g, curve_dat) # rest) gid = (if g = gid then Some curve_dat else curve_scan rest gid)"

definition eccp_curve_get :: "mbedtls_ecp_group \<Rightarrow> eccp_curve_t option" where
  "eccp_curve_get grp = curve_scan eccp_curve_linking (grp_id grp)"

definition mont_curve_get :: "mbedtls_ecp_group \<Rightarrow> mont_curve_t option" where
  "mont_curve_get grp = curve_scan mont_curve_linking (grp_id grp)"

section \<open>The hardware engine and the accelerator lock\<close>

text \<open>
  Modelled from the spec: the return codes of the engine are declared in \<open>pke.h\<close>, which
  is not part of the sources at hand. The spec gives an engine call three kinds of
  answer: the positive one (\<open>PKE_SUCCESS\<close>, the only code the backend names), a negative
  one (the point is not on the curve) and an internal fault.
\<close>

datatype pke_ret_code = PKE_SUCCESS | PKE_NOT_ON_CURVE | PKE_ENGINE_FAULT

text \<open>
  Modelled from the spec: \<open>GET_WORD_LEN\<close> is a macro of \<open>pke.h\<close>; the spec sizes the
  buffers as \<open>ceil(bitlen / word_bits)\<close> with 32-bit words.
\<close>

definition GET_WORD_LEN :: "nat \<Rightarrow> nat" where
  "GET_WORD_LEN bitLen = (bitLen + 31) div 32"

text \<open>
  What the backend takes from its platform, as parameters: the constant
  \<open>PKE_OPERAND_MAX_WORD_LEN\<close> of \<open>pke.h\<close>; whether the bignum library can provide a number
  of limbs; the bytes an uninitialised stack array holds (array number, byte index); and
  the four engine functions, each on the state \<open>'h\<close> of the hardware, taking its operand
  buffers as the bytes in memory and returning its code, the bytes it stores through its
  output pointers and the new hardware state.
\<close>

record 'h platform =
  PKE_OPERAND_MAX_WORD_LEN :: nat
  alloc_ok :: "nat \<Rightarrow> bool"
  uninit :: "nat \<Rightarrow> nat \<Rightarrow> byte"
  pke_eccp_point_verify ::
    "'h \<Rightarrow> eccp_curve_t \<Rightarrow> byte list \<Rightarrow> byte list \<Rightarrow> pke_ret_code \<times> 'h"
  pke_eccp_point_mul ::
    "'h \<Rightarrow> eccp_curve_t \<Rightarrow> byte list \<Rightarrow> byte list \<Rightarrow> byte list \<Rightarrow>
       pke_ret_code \<times> byte list \<times> byte list \<times> 'h"
  pke_x25519_point_mul ::
    "'h \<Rightarrow> mont_curve_t \<Rightarrow> byte list \<Rightarrow> byte list \<Rightarrow> pke_ret_code \<times> byte list \<times> 'h"
  pke_eccp_point_add ::
    "'h \<Rightarrow> eccp_curve_t \<Rightarrow> byte list \<Rightarrow> byte list \<Rightarrow> byte list \<Rightarrow> byte list \<Rightarrow>
       pke_ret_code \<times> byte list \<times> byte list \<times> 'h"

text \<open>
  What happens to the accelerator, in order: taking and releasing the lock, and every
  engine call with its operands.
\<close>

datatype event =
    EV_lock
  | EV_unlock
  | EV_eccp_point_verify eccp_curve_t "byte list" "byte list"
  | EV_eccp_point_mul eccp_curve_t "byte list" "byte list" "byte list"
  | EV_x25519_point_mul mont_curve_t "byte list" "byte list"
  | EV_eccp_point_add eccp_curve_t "byte list" "byte list" "byte list" "byte list"

record 'h world =
  hw :: 'h
  trace :: "event list"

definition mbedtls_ecp_lock :: "'h world \<Rightarrow> 'h world" where
  "mbedtls_ecp_lock w = w\<lparr>trace := trace w @ [EV_lock]\<rparr>"

definition mbedtls_ecp_unlock :: "'h world \<Rightarrow> 'h world" where
  "mbedtls_ecp_unlock w = w\<lparr>trace := trace w @ [EV_unlock]\<rparr>"

definition call_eccp_point_verify ::
  "'h platform \<Rightarrow> 'h world \<Rightarrow> eccp_curve_t \<Rightarrow> byte list \<Rightarrow> byte list \<Rightarrow> pke_ret_code \<times> 'h world" where
  "call_eccp_point_verify pf w curve Qx Qy =
     (case pke_eccp_point_verify pf (hw w) curve Qx Qy of
        (rc, h) \<Rightarrow> (rc, w\<lparr>hw := h, trace := trace w @ [EV_eccp_point_verify curve Qx Qy]\<rparr>))"

definition call_eccp_point_mul ::
  "'h platform \<Rightarrow> 'h world \<Rightarrow> eccp_curve_t \<Rightarrow> byte list \<Rightarrow> byte list \<Rightarrow> byte list \<Rightarrow>
     pke_ret_code \<times> byte list \<times> byte list \<times> 'h world" where
  "call_eccp_point_mul pf w curve k Px Py =
     (case pke_eccp_point_mul pf (hw w) curve k Px Py of
        (rc, ox, oy, h) \<Rightarrow>
          (rc, ox, oy, w\<lparr>hw := h, trace := trace w @ [EV_eccp_point_mul curve k Px Py]\<rparr>))"

definition call_x25519_point_mul ::
  "'h platform \<Rightarrow> 'h world \<Rightarrow> mont_curve_t \<Rightarrow> byte list \<Rightarrow> byte list \<Rightarrow>
     pke_ret_code \<times> byte list \<times> 'h world" where
  "call_x25519_point_mul pf w curve k Pu =
     (case pke_x25519_point_mul pf (hw w) curve k Pu of
        (rc, ou, h) \<Rightarrow>
          (rc, ou, w\<lparr>hw := h, trace := trace w @ [EV_x25519_point_mul curve k Pu]\<rparr>))"

definition call_eccp_point_add ::
  "'h platform \<Rightarrow> 'h world \<Rightarrow> eccp_curve_t \<Rightarrow> byte list \<Rightarrow> byte list \<Rightarrow> byte list \<Rightarrow> byte list \<Rightarrow>
     pke_ret_code \<times> byte list \<times> byte list \<times> 'h world" where
  "call_eccp_point_add pf w curve P1x P1y P2x P2y =
     (case pke_eccp_point_add pf (hw w) curve P1x P1y P2x P2y of
        (rc, ox, oy, h) \<Rightarrow>
          (rc, ox, oy, w\<lparr>hw := h, trace := trace w @ [EV_eccp_point_add curve P1x P1y P2x P2y]\<rparr>))"

text \<open>
  A local array \<open>unsigned int a[word_len]\<close> as the function finds it, and the bytes of a
  buffer after the engine has stored \<open>out\<close> through a pointer to it: the engine writes
  within the buffer, and what it does not write stays.
\<close>

definition stack_array :: "'h platform \<Rightarrow> nat \<Rightarrow> nat \<Rightarrow> byte list" where
  "stack_array pf k word_len = map (uninit pf k) [0..<word_len * 4]"

definition engine_store :: "byte list \<Rightarrow> byte list \<Rightarrow> byte list" where
  "engine_store buf out = take (length buf) (out @ drop (length out) buf)"

section \<open>The three operations of the backend\<close>

text \<open>
  Each operation takes the platform, the world before the call and its pointer arguments
  (\<open>None\<close> is the null pointer). It returns its code, the world after the call, the
  object behind an output pointer as the call leaves it, and the local arrays as they
  are when the function returns (\<open>None\<close> when the block declaring them was not entered).
  \<open>sz\<close> is \<open>sizeof\<close> of one local array, \<open>word_len * sizeof(unsigned int)\<close>; the byte
  view of the word arrays, which the codec writes and reads through \<open>unsigned char *\<close>, is
  the only one the operations use.
\<close>

subsection \<open>\<open>ecp_alt_b91_backend_check_pubkey\<close>\<close>

text \<open>The block under \<open>ecp_get_type( grp ) == ECP_TYPE_SHORT_WEIERSTRASS\<close>.\<close>

definition check_pubkey_weierstrass ::
  "'h platform \<Rightarrow> mbedtls_ecp_group \<Rightarrow> mbedtls_ecp_point \<Rightarrow> nat \<Rightarrow>
     mbedtls_ret \<times> 'h world \<times> byte list \<times> byte list \<Rightarrow>
     mbedtls_ret \<times> 'h world \<times> byte list \<times> byte list" where
  "check_pubkey_weierstrass pf grp pt sz st =
     (case st of (result, w, Qx, Qy) \<Rightarrow>
        (case eccp_curve_get grp of
           None \<Rightarrow> (result, w, Qx, Qy)
         | Some eccp_curve \<Rightarrow>
             (let Qx = snd (mbedtls_mpi_write_binary_le (pt_X pt) Qx sz);
                  Qy = snd (mbedtls_mpi_write_binary_le (pt_Y pt) Qy sz);
                  w = mbedtls_ecp_lock w;
                  (rc, w) = call_eccp_point_verify pf w eccp_curve Qx Qy;
                  result = (if rc = PKE_SUCCESS then RET_OK else MBEDTLS_ERR_ECP_INVALID_KEY);
                  w = mbedtls_ecp_unlock w
              in (result, w, Qx, Qy))))"

definition ecp_alt_b91_backend_check_pubkey ::
  "'h platform \<Rightarrow> 'h world \<Rightarrow> mbedtls_ecp_group option \<Rightarrow> mbedtls_ecp_point option \<Rightarrow>
     mbedtls_ret \<times> 'h world \<times> byte list list option" where
  "ecp_alt_b91_backend_check_pubkey pf w grp pt =
     (let result = MBEDTLS_ERR_ECP_BAD_INPUT_DATA in
      if grp \<noteq> None \<and> pt \<noteq> None
      then (let result = MBEDTLS_ERR_PLATFORM_FEATURE_UNSUPPORTED;
                word_len = GET_WORD_LEN (grp_pbits (the grp))
            in if word_len \<le> PKE_OPERAND_MAX_WORD_LEN pf
               then (let Qx = stack_array pf 0 word_len;
                         Qy = stack_array pf 1 word_len;
                         sz = word_len * 4;
                         (result, w, Qx, Qy) =
                           (if ecp_get_type (the grp) = ECP_TYPE_SHORT_WEIERSTRASS
                            then check_pubkey_weierstrass pf (the grp) (the pt) sz (result, w, Qx, Qy)
                            else (result, w, Qx, Qy))
                     in (result, w, Some [memset_at Qx 0 0 sz, memset_at Qy 0 0 sz]))
               else (result, w, None))
      else (result, w, None))"

subsection \<open>\<open>ecp_alt_b91_backend_mul\<close>\<close>

text \<open>What the success branches store through \<open>R\<close>; the codes of the calls are discarded.\<close>

definition mul_weierstrass ::
  "'h platform \<Rightarrow> mbedtls_ecp_group \<Rightarrow> mbedtls_mpi \<Rightarrow> mbedtls_ecp_point \<Rightarrow> nat \<Rightarrow>
     mbedtls_ret \<times> 'h world \<times> mbedtls_ecp_point \<times> byte list \<times> byte list \<times> byte list \<Rightarrow>
     mbedtls_ret \<times> 'h world \<times> mbedtls_ecp_point \<times> byte list \<times> byte list \<times> byte list" where
  "mul_weierstrass pf grp m P sz st =
     (case st of (result, w, R, ms, Qx, Qy) \<Rightarrow>
        (case eccp_curve_get grp of
           None \<Rightarrow> (result, w, R, ms, Qx, Qy)
         | Some eccp_curve \<Rightarrow>
             (let ms = snd (mbedtls_mpi_write_binary_le m ms sz);
                  Qx = snd (mbedtls_mpi_write_binary_le (pt_X P) Qx sz);
                  Qy = snd (mbedtls_mpi_write_binary_le (pt_Y P) Qy sz);
                  w = mbedtls_ecp_lock w;
                  (rc, ox, oy, w) = call_eccp_point_mul pf w eccp_curve ms Qx Qy;
                  Qx = engine_store Qx ox;
                  Qy = engine_store Qy oy;
                  (result, R) =
                    (if rc = PKE_SUCCESS
                     then (RET_OK,
                           R\<lparr>pt_X := snd (mbedtls_mpi_read_binary_le (alloc_ok pf) (pt_X R) Qx sz),
                             pt_Y := snd (mbedtls_mpi_read_binary_le (alloc_ok pf) (pt_Y R) Qy sz),
                             pt_Z := snd (mbedtls_mpi_lset (alloc_ok pf) (pt_Z R) 1)\<rparr>)
                     else (MBEDTLS_ERR_PLATFORM_HW_ACCEL_FAILED, R));
                  w = mbedtls_ecp_unlock w
              in (result, w, R, ms, Qx, Qy))))"

definition mul_montgomery ::
  "'h platform \<Rightarrow> mbedtls_ecp_group \<Rightarrow> mbedtls_mpi \<Rightarrow> mbedtls_ecp_point \<Rightarrow> nat \<Rightarrow>
     mbedtls_ret \<times> 'h world \<times> mbedtls_ecp_point \<times> byte list \<times> byte list \<times> byte list \<Rightarrow>
     mbedtls_ret \<times> 'h world \<times> mbedtls_ecp_point \<times> byte list \<times> byte list \<times> byte list" where
  "mul_montgomery pf grp m P sz st =
     (case st of (result, w, R, ms, Qx, Qy) \<Rightarrow>
        (case mont_curve_get grp of
           None \<Rightarrow> (result, w, R, ms, Qx, Qy)
         | Some mont_curve \<Rightarrow>
             (let ms = snd (mbedtls_mpi_write_binary_le m ms sz);
                  Qx = snd (mbedtls_mpi_write_binary_le (pt_X P) Qx sz);
                  w = mbedtls_ecp_lock w;
                  (rc, ou, w) = call_x25519_point_mul pf w mont_curve ms Qx;
                  Qx = engine_store Qx ou;
                  (result, R) =
                    (if rc = PKE_SUCCESS
                     then (RET_OK,
                           R\<lparr>pt_X := snd (mbedtls_mpi_read_binary_le (alloc_ok pf) (pt_X R) Qx sz),
                             pt_Y := snd (mbedtls_mpi_lset (alloc_ok pf) (pt_Y R) 0),
                             pt_Z := snd (mbedtls_mpi_lset (alloc_ok pf) (pt_Z R) 1)\<rparr>)
                     else (MBEDTLS_ERR_PLATFORM_HW_ACCEL_FAILED, R));
                  w = mbedtls_ecp_unlock w
              in (result, w, R, ms, Qx, Qy))))"

definition ecp_alt_b91_backend_mul ::
  "'h platform \<Rightarrow> 'h world \<Rightarrow> mbedtls_ecp_group option \<Rightarrow> mbedtls_ecp_point option \<Rightarrow>
     mbedtls_mpi option \<Rightarrow> mbedtls_ecp_point option \<Rightarrow>
     mbedtls_ret \<times> 'h world \<times> mbedtls_ecp_point option \<times> byte list list option" where
  "ecp_alt_b91_backend_mul pf w grp R m P =
     (let result = MBEDTLS_ERR_ECP_BAD_INPUT_DATA in
      if grp \<noteq> None \<and> R \<noteq> None \<and> m \<noteq> None \<and> P \<noteq> None
      then (let result = MBEDTLS_ERR_PLATFORM_FEATURE_UNSUPPORTED;
                word_len = GET_WORD_LEN (grp_pbits (the grp))
            in if word_len \<le> PKE_OPERAND_MAX_WORD_LEN pf
               then (let ms = stack_array pf 0 word_len;
                         Qx = stack_array pf 1 word_len;
                         Qy = stack_array pf 2 word_len;
                         sz = word_len * 4;
                         st = (result, w, the R, ms, Qx, Qy);
                         st = (if ecp_get_type (the grp) = ECP_TYPE_SHORT_WEIERSTRASS
                               then mul_weierstrass pf (the grp) (the m) (the P) sz st
                               else st);
                         st = (if ecp_get_type (the grp) = ECP_TYPE_MONTGOMERY
                               then mul_montgomery pf (the grp) (the m) (the P) sz st
                               else st);
                         (result, w, R', ms, Qx, Qy) = st
                     in (result, w, Some R',
                         Some [memset_at ms 0 0 sz, memset_at Qx 0 0 sz, memset_at Qy 0 0 sz]))
               else (result, w, R, None))
      else (result, w, R, None))"

subsection \<open>\<open>ecp_alt_b91_backend_muladd\<close>\<close>

text \<open>
  The block under the type test. Each \<open>break\<close> of the \<open>do { } while ( 0 )\<close> leaves with the
  result \<open>MBEDTLS_ERR_PLATFORM_HW_ACCEL_FAILED\<close> set before the lock is taken, and the
  unlock follows the loop on every path.
\<close>

definition muladd_weierstrass ::
  "'h platform \<Rightarrow> mbedtls_ecp_group \<Rightarrow> mbedtls_mpi \<Rightarrow> mbedtls_ecp_point \<Rightarrow>
     mbedtls_mpi \<Rightarrow> mbedtls_ecp_point \<Rightarrow> nat \<Rightarrow>
     mbedtls_ret \<times> 'h world \<times> mbedtls_ecp_point \<times>
       byte list \<times> byte list \<times> byte list \<times> byte list \<times> byte list \<Rightarrow>
     mbedtls_ret \<times> 'h world \<times> mbedtls_ecp_point \<times>
       byte list \<times> byte list \<times> byte list \<times> byte list \<times> byte list" where
  "muladd_weierstrass pf grp m P n Q sz st =
     (case st of (result, w, R, ms, Q1x, Q1y, Q2x, Q2y) \<Rightarrow>
        (case eccp_curve_get grp of
           None \<Rightarrow> (result, w, R, ms, Q1x, Q1y, Q2x, Q2y)
         | Some eccp_curve \<Rightarrow>
             (let Q1x = snd (mbedtls_mpi_write_binary_le (pt_X P) Q1x sz);
                  Q1y = snd (mbedtls_mpi_write_binary_le (pt_Y P) Q1y sz);
                  Q2x = snd (mbedtls_mpi_write_binary_le (pt_X Q) Q2x sz);
                  Q2y = snd (mbedtls_mpi_write_binary_le (pt_Y Q) Q2y sz);
                  result = MBEDTLS_ERR_PLATFORM_HW_ACCEL_FAILED;
                  w = mbedtls_ecp_lock w;
                  ms = snd (mbedtls_mpi_write_binary_le m ms sz);
                  (rc1, ox, oy, w) = call_eccp_point_mul pf w eccp_curve ms Q1x Q1y;
                  Q1x = engine_store Q1x ox;
                  Q1y = engine_store Q1y oy
              in if rc1 \<noteq> PKE_SUCCESS
                 then (result, mbedtls_ecp_unlock w, R, ms, Q1x, Q1y, Q2x, Q2y)
                 else (let ms = snd (mbedtls_mpi_write_binary_le n ms sz);
                           (rc2, ox, oy, w) = call_eccp_point_mul pf w eccp_curve ms Q2x Q2y;
                           Q2x = engine_store Q2x ox;
                           Q2y = engine_store Q2y oy
                       in if rc2 \<noteq> PKE_SUCCESS
                          then (result, mbedtls_ecp_unlock w, R, ms, Q1x, Q1y, Q2x, Q2y)
                          else (let (rc3, ox, oy, w) =
                                      call_eccp_point_add pf w eccp_curve Q1x Q1y Q2x Q2y;
                                    Q1x = engine_store Q1x ox;
                                    Q1y = engine_store Q1y oy
                                in if rc3 \<noteq> PKE_SUCCESS
                                   then (result, mbedtls_ecp_unlock w, R, ms, Q1x, Q1y, Q2x, Q2y)
                                   else (let R = R\<lparr>pt_X := snd (mbedtls_mpi_read_binary_le
                                                                (alloc_ok pf) (pt_X R) Q1x sz),
                                                     pt_Y := snd (mbedtls_mpi_read_binary_le
                                                                (alloc_ok pf) (pt_Y R) Q1y sz),
                                                     pt_Z := snd (mbedtls_mpi_lset
                                                                (alloc_ok pf) (pt_Z R) 1)\<rparr>;
                                             result = RET_OK
                                         in (result, mbedtls_ecp_unlock w, R,
                                             ms, Q1x, Q1y, Q2x, Q2y)))))))"

definition ecp_alt_b91_backend_muladd ::
  "'h platform \<Rightarrow> 'h world \<Rightarrow> mbedtls_ecp_group option \<Rightarrow> mbedtls_ecp_point option \<Rightarrow>
     mbedtls_mpi option \<Rightarrow> mbedtls_ecp_point option \<Rightarrow>
     mbedtls_mpi option \<Rightarrow> mbedtls_ecp_point option \<Rightarrow>
     mbedtls_ret \<times> 'h world \<times> mbedtls_ecp_point option \<times> byte list list option" where
  "ecp_alt_b91_backend_muladd pf w grp R m P n Q =
     (let result = MBEDTLS_ERR_ECP_BAD_INPUT_DATA in
      if grp \<noteq> None \<and> R \<noteq> None \<and> m \<noteq> None \<and> P \<noteq> None \<and> n \<noteq> None \<and> Q \<noteq> None
      then (let result = MBEDTLS_ERR_PLATFORM_FEATURE_UNSUPPORTED;
                word_len = GET_WORD_LEN (grp_pbits (the grp))
            in if word_len \<le> PKE_OPERAND_MAX_WORD_LEN pf
               then (let ms = stack_array pf 0 word_len;
                         Q1x = stack_array pf 1 word_len;
                         Q1y = stack_array pf 2 word_len;
                         Q2x = stack_array pf 3 word_len;
                         Q2y = stack_array pf 4 word_len;
                         sz = word_len * 4;
                         st = (result, w, the R, ms, Q1x, Q1y, Q2x, Q2y);
                         (result, w, R', ms, Q1x, Q1y, Q2x, Q2y) =
                           (if ecp_get_type (the grp) = ECP_TYPE_SHORT_WEIERSTRASS
                            then muladd_weierstrass pf (the grp) (the m) (the P) (the n) (the Q) sz st
                            else st)
                     in (result, w, Some R',
                         Some [memset_at ms 0 0 sz, memset_at Q1x 0 0 sz, memset_at Q1y 0 0 sz,
                               memset_at Q2x 0 0 sz, memset_at Q2y 0 0 sz]))
               else (result, w, R, None))
      else (result, w, R, None))"

subsection \<open>Example numbers\<close>

definition mpi_example :: mbedtls_mpi where
  "mpi_example = \<lparr>mpi_s = 1, mpi_n = 2, mpi_p = Some [0x04030201, 0x00000005]\<rparr>"

definition mpi_empty :: mbedtls_mpi where
  "mpi_empty = \<lparr>mpi_s = 1, mpi_n = 0, mpi_p = None\<rparr>"

definition mpi_wide :: mbedtls_mpi where
  "mpi_wide = \<lparr>mpi_s = 1, mpi_n = 9, mpi_p = Some (replicate 8 0 @ [1])\<rparr>"

subsection \<open>Example groups, points and platforms\<close>

definition pt_example :: mbedtls_ecp_point where
  "pt_example = \<lparr>pt_X = mpi_example, pt_Y = mpi_example, pt_Z = mpi_example\<rparr>"

definition pt_wide :: mbedtls_ecp_point where
  "pt_wide = \<lparr>pt_X = mpi_wide, pt_Y = mpi_example, pt_Z = mpi_example\<rparr>"

definition grp_secp256r1 :: mbedtls_ecp_group where
  "grp_secp256r1 = \<lparr>grp_id = MBEDTLS_ECP_DP_SECP256R1, grp_G = pt_example, grp_pbits = 256\<rparr>"

definition grp_curve25519 :: mbedtls_ecp_group where
  "grp_curve25519 =
     \<lparr>grp_id = MBEDTLS_ECP_DP_CURVE25519,
      grp_G = \<lparr>pt_X = mpi_example, pt_Y = mpi_empty, pt_Z = mpi_empty\<rparr>,
      grp_pbits = 255\<rparr>"

definition grp_secp384r1 :: mbedtls_ecp_group where
  "grp_secp384r1 = \<lparr>grp_id = MBEDTLS_ECP_DP_SECP384R1, grp_G = pt_example, grp_pbits = 384\<rparr>"

text \<open>
  A platform whose engine gives the same answer to every call and stores its operands
  back unchanged; its hardware state counts the calls.
\<close>

definition engine_answering :: "pke_ret_code \<Rightarrow> nat platform" where
  "engine_answering rc =
     \<lparr>PKE_OPERAND_MAX_WORD_LEN = 8,
      alloc_ok = (\<lambda>k. True),
      uninit = (\<lambda>k i. 0xAA),
      pke_eccp_point_verify = (\<lambda>h c x y. (rc, Suc h)),
      pke_eccp_point_mul = (\<lambda>h c k x y. (rc, x, y, Suc h)),
      pke_x25519_point_mul = (\<lambda>h c k u. (rc, u, Suc h)),
      pke_eccp_point_add = (\<lambda>h c x1 y1 x2 y2. (rc, x1, y1, Suc h))\<rparr>"

text \<open>
  A point as \<open>mbedtls_ecp_point_init\<close> leaves it, the bytes secp256r1 makes of
  \<open>mpi_example\<close>, and the succeeding engine on a platform whose bignum library can
  provide no limbs.
\<close>

definition pt_init :: mbedtls_ecp_point where
  "pt_init = \<lparr>pt_X = mpi_empty, pt_Y = mpi_empty, pt_Z = mpi_empty\<rparr>"

definition enc_example :: "byte list" where
  "enc_example = snd (mbedtls_mpi_write_binary_le mpi_example (replicate 32 0xAA) 32)"

definition engine_out_of_memory :: "nat platform" where
  "engine_out_of_memory = (engine_answering PKE_SUCCESS)\<lparr>alloc_ok := (\<lambda>k. False)\<rparr>"

definition world0 :: "nat world" where
  "world0 = \<lparr>hw = 0, trace = []\<rparr>"

subsection \<open>Predicates of the claims\<close>

text \<open>
  The group's curve is in no table of its family: the lookup of its family fails, or it
  has no family.
\<close>

definition curve_not_registered :: "mbedtls_ecp_group \<Rightarrow> bool" where
  "curve_not_registered grp =
     (case ecp_get_type grp of
        ECP_TYPE_NONE \<Rightarrow> True
      | ECP_TYPE_SHORT_WEIERSTRASS \<Rightarrow> eccp_curve_get grp = None
      | ECP_TYPE_MONTGOMERY \<Rightarrow> mont_curve_get grp = None)"

fun is_engine_call :: "event \<Rightarrow> bool" where
  "is_engine_call EV_lock = False"
| "is_engine_call EV_unlock = False"
| "is_engine_call _ = True"

text \<open>
  A stretch of events that is one acquisition of the lock: it starts with the lock,
  ends with the unlock, and between them are engine calls only, at least one.
\<close>

definition locked_section :: "event list \<Rightarrow> bool" where
  "locked_section evs =
     (case evs of
        [] \<Rightarrow> False
      | e # rest \<Rightarrow>
          e = EV_lock \<and> rest \<noteq> [] \<and> last rest = EV_unlock \<and>
          butlast rest \<noteq> [] \<and> list_all is_engine_call (butlast rest))"

section \<open>Properties of the codec\<close>

lemma excess_bytes_zero_iff:
  "excess_bytes_zero X i stored_bytes \<longleftrightarrow> (\<forall>j. i \<le> j \<and> j < stored_bytes \<longrightarrow> GET_BYTE X j = 0)"
proof (induction X i stored_bytes rule: excess_bytes_zero.induct)
  case (1 X i stored_bytes)
  show ?case
  proof (cases "i < stored_bytes")
    case False
    then show ?thesis by (subst excess_bytes_zero.simps) auto
  next
    case True
    show ?thesis
    proof (cases "GET_BYTE X i = 0")
      case False
      with True show ?thesis by (subst excess_bytes_zero.simps) auto
    next
      case z: True
      have "(\<forall>j. i \<le> j \<and> j < stored_bytes \<longrightarrow> GET_BYTE X j = 0) \<longleftrightarrow>
            (\<forall>j. i + 1 \<le> j \<and> j < stored_bytes \<longrightarrow> GET_BYTE X j = 0)"
        using z by (metis Suc_eq_plus1 Suc_leI le_neq_implies_less add_leD1)
      with True z "1.IH" show ?thesis by (subst excess_bytes_zero.simps) simp
    qed
  qed
qed

lemma length_copy_bytes [simp]: "length (copy_bytes X buf i k) = length buf"
  by (induction X buf i k rule: copy_bytes.induct) (subst copy_bytes.simps, simp)

lemma nth_copy_bytes:
  "k \<le> length buf \<Longrightarrow> j < length buf \<Longrightarrow>
   copy_bytes X buf i k ! j = (if i \<le> j \<and> j < k then GET_BYTE X j else buf ! j)"
proof (induction X buf i k arbitrary: j rule: copy_bytes.induct)
  case (1 X buf i k)
  show ?case
  proof (cases "i < k")
    case False
    then show ?thesis by (subst copy_bytes.simps) auto
  next
    case True
    have "copy_bytes X buf i k ! j = copy_bytes X (buf[i := GET_BYTE X i]) (i + 1) k ! j"
      using True by (subst copy_bytes.simps) simp
    also have "\<dots> = (if i + 1 \<le> j \<and> j < k then GET_BYTE X j else (buf[i := GET_BYTE X i]) ! j)"
      using "1.IH" [OF True, of j] "1.prems" by simp
    also have "\<dots> = (if i \<le> j \<and> j < k then GET_BYTE X j else buf ! j)"
      using True "1.prems" by (auto simp: nth_list_update)
    finally show ?thesis .
  qed
qed

lemma bit_limb_byte: "bit (limb_byte w r) c \<longleftrightarrow> c < 8 \<and> bit w (r * 8 + c)"
proof -
  have ff: "(0xff :: 32 word) = mask 8" by (simp add: mask_eq_exp_minus_1)
  show ?thesis
    unfolding limb_byte_def ff
    by (auto simp: bit_simps)
qed

lemma unat_limb_byte: "unat (limb_byte w r) = unat w div 2 ^ (r * 8) mod 256"
proof -
  have ff: "(0xff :: 32 word) = mask 8" by (simp add: mask_eq_exp_minus_1)
  have "limb_byte w r = ucast (drop_bit (r * 8) w)"
    unfolding limb_byte_def ff by (rule bit_word_eqI) (auto simp: bit_simps)
  then have "unat (limb_byte w r) = take_bit 8 (drop_bit (r * 8) (unat w))"
    by (simp only: unsigned_ucast_eq unat_drop_bit_eq) simp
  then show ?thesis
    by (simp add: drop_bit_eq_div take_bit_eq_mod)
qed

lemma split4:
  fixes x :: nat
  assumes "x < 2 ^ 32"
  shows "x = x mod 256 + 256 * (x div 2 ^ 8 mod 256 + 256 * (x div 2 ^ 16 mod 256 + 256 * (x div 2 ^ 24 mod 256)))"
proof -
  define a where "a = x div 256"
  define b where "b = a div 256"
  define c where "c = b div 256"
  have x: "x = x mod 256 + 256 * a" by (simp add: a_def)
  have a: "a = a mod 256 + 256 * b" by (simp add: b_def)
  have b: "b = b mod 256 + 256 * c" by (simp add: c_def)
  have "c < 256" using assms unfolding c_def b_def a_def by (simp add: less_mult_imp_div_less)
  then have c: "c mod 256 = c" by simp
  have a': "x div 2 ^ 8 = a" by (simp add: a_def)
  have b': "x div 2 ^ 16 = b" unfolding b_def a_def by (simp add: div_mult2_eq)
  have c': "x div 2 ^ 24 = c" unfolding c_def b_def a_def by (simp add: div_mult2_eq)
  show ?thesis unfolding a' b' c' c using x a b by presburger
qed

lemma unat_limb_split:
  "unat (w :: 32 word) = le_val_bytes [limb_byte w 0, limb_byte w 1, limb_byte w 2, limb_byte w 3]"
proof -
  have lt: "unat w < 2 ^ 32" using unsigned_less [of w] by simp
  have b0: "unat (limb_byte w 0) = unat w mod 256"
    using unat_limb_byte [of w 0] by simp
  have b1: "unat (limb_byte w 1) = unat w div 2 ^ 8 mod 256"
    using unat_limb_byte [of w 1] by simp
  have b2: "unat (limb_byte w 2) = unat w div 2 ^ 16 mod 256"
    using unat_limb_byte [of w 2] by simp
  have b3: "unat (limb_byte w 3) = unat w div 2 ^ 24 mod 256"
    using unat_limb_byte [of w 3] by simp
  show ?thesis
    unfolding le_val_bytes.simps b0 b1 b2 b3
    using split4 [OF lt] by (simp only: mult_0_right add_0_right)
qed

lemma le_val_bytes_append:
  "le_val_bytes (xs @ ys) = le_val_bytes xs + 256 ^ length xs * le_val_bytes ys"
  by (induction xs) (simp_all add: algebra_simps)

lemma le_val_bytes_replicate_0 [simp]: "le_val_bytes (replicate k 0) = 0"
  by (induction k) simp_all

lemma length_limbs_bytes [simp]: "length (limbs_bytes ws) = 4 * length ws"
  by (induction ws) (simp_all add: limbs_bytes_def limb_bytes_def)

lemma limbs_val_bytes: "limbs_val ws = le_val_bytes (limbs_bytes ws)"
proof (induction ws)
  case Nil
  show ?case by (simp add: limbs_bytes_def)
next
  case (Cons w ws)
  have "limbs_bytes (w # ws) = limb_bytes w @ limbs_bytes ws"
    by (simp add: limbs_bytes_def)
  then have "le_val_bytes (limbs_bytes (w # ws)) = unat w + 256 ^ 4 * le_val_bytes (limbs_bytes ws)"
    by (simp only: le_val_bytes_append unat_limb_split [of w] limb_bytes_def) simp
  with Cons show ?case by simp
qed

lemma nth_limb_bytes: "r < 4 \<Longrightarrow> limb_bytes w ! r = limb_byte w r"
proof -
  assume "r < 4"
  then consider "r = 0" | "r = 1" | "r = 2" | "r = 3" by linarith
  then show ?thesis by cases (simp_all add: limb_bytes_def)
qed

lemma nth_limbs_bytes:
  "j < 4 * length ws \<Longrightarrow> limbs_bytes ws ! j = limb_byte (ws ! (j div 4)) (j mod 4)"
proof (induction ws arbitrary: j)
  case Nil
  then show ?case by simp
next
  case (Cons w ws)
  have app: "limbs_bytes (w # ws) = limb_bytes w @ limbs_bytes ws"
    by (simp add: limbs_bytes_def)
  have len: "length (limb_bytes w) = 4" by (simp add: limb_bytes_def)
  show ?case
  proof (cases "j < 4")
    case True
    then show ?thesis unfolding app by (simp add: nth_append len nth_limb_bytes)
  next
    case False
    then have j: "j = (j - 4) + 4" by simp
    have "j - 4 < 4 * length ws" using Cons.prems False by simp
    from Cons.IH [OF this] have ih: "limbs_bytes ws ! (j - 4) = limb_byte (ws ! ((j - 4) div 4)) ((j - 4) mod 4)" .
    have d: "j div 4 = Suc ((j - 4) div 4)" and m: "j mod 4 = (j - 4) mod 4"
      using False by presburger+
    show ?thesis unfolding app using False ih by (simp add: nth_append len d m)
  qed
qed

lemma GET_BYTE_limb_byte: "GET_BYTE X i = limb_byte (limbs_of X ! (i div 4)) (i mod 4)"
  by (simp add: GET_BYTE_def limb_byte_def ciL_def)

lemma length_or_bytes [simp]: "length (or_bytes ls buf i n) = length ls"
  by (induction ls buf i n rule: or_bytes.induct) (subst or_bytes.simps, simp)

lemma byte_pos_imp:
  fixes i k b :: nat
  assumes "b < 32" and "4 * k + b div 8 = i"
  shows "k = i div 4" and "(i mod 4) * 8 \<le> b" and "b - (i mod 4) * 8 = b mod 8"
proof -
  have q: "b div 8 < 4" using assms(1) by linarith
  have "(4 * k + b div 8) div 4 = k" using q by simp
  then show k: "k = i div 4" using assms(2) by simp
  have "(4 * k + b div 8) mod 4 = b div 8" using q by simp
  then have r: "i mod 4 = b div 8" using assms(2) by simp
  show "(i mod 4) * 8 \<le> b" unfolding r by linarith
  show "b - (i mod 4) * 8 = b mod 8" unfolding r by (simp add: minus_div_mult_eq_mod)
qed

lemma byte_pos_conv:
  fixes i k b :: nat
  assumes "k = i div 4" and "(i mod 4) * 8 \<le> b" and "b - (i mod 4) * 8 < 8"
  shows "4 * k + b div 8 = i"
proof -
  have "b div 8 = i mod 4" using assms(2,3) by linarith
  then show ?thesis using assms(1) by simp
qed

lemma bit_or_step:
  "bit ((w :: 32 word) OR push_bit (push_bit 3 (i mod ciL)) (ucast (x :: byte))) b \<longleftrightarrow>
     bit w b \<or> (b < 32 \<and> (i mod 4) * 8 \<le> b \<and> b - (i mod 4) * 8 < 8 \<and> bit x (b - (i mod 4) * 8))"
proof -
  have sh: "push_bit 3 (i mod ciL) = (i mod 4) * 8"
    by (simp add: push_bit_eq_mult ciL_def)
  show ?thesis unfolding sh by (auto simp: bit_simps dest: bit_imp_le_length)
qed

lemma bit_or_bytes:
  assumes "n \<le> 4 * length ls" and "k < length ls"
  shows "bit (or_bytes ls buf i n ! k) b \<longleftrightarrow>
           bit (ls ! k) b \<or>
           (b < 32 \<and> i \<le> 4 * k + b div 8 \<and> 4 * k + b div 8 < n \<and> bit (buf ! (4 * k + b div 8)) (b mod 8))"
  using assms
proof (induction ls buf i n rule: or_bytes.induct)
  case (1 ls buf i n)
  show ?case
  proof (cases "i < n")
    case False
    then show ?thesis by (subst or_bytes.simps) auto
  next
    case True
    define ls' where "ls' = ls[i div ciL := (ls ! (i div ciL)) OR push_bit (push_bit 3 (i mod ciL)) (ucast (buf ! i))]"
    have len: "length ls' = length ls" by (simp add: ls'_def)
    have unf: "or_bytes ls buf i n = or_bytes ls' buf (i + 1) n"
      using True by (subst or_bytes.simps) (simp add: ls'_def)
    have ih: "bit (or_bytes ls' buf (i + 1) n ! k) b \<longleftrightarrow>
           bit (ls' ! k) b \<or>
           (b < 32 \<and> i + 1 \<le> 4 * k + b div 8 \<and> 4 * k + b div 8 < n \<and> bit (buf ! (4 * k + b div 8)) (b mod 8))"
      using "1.IH" [OF True] "1.prems" len unfolding ls'_def by simp
    have iq: "i div 4 < length ls" using True "1.prems" by linarith
    have new: "bit (ls' ! k) b \<longleftrightarrow> bit (ls ! k) b \<or> (b < 32 \<and> 4 * k + b div 8 = i \<and> bit (buf ! i) (b mod 8))"
    proof (cases "k = i div 4")
      case False
      then have "ls' ! k = ls ! k" by (simp add: ls'_def ciL_def)
      moreover have "b < 32 \<Longrightarrow> 4 * k + b div 8 \<noteq> i" using False byte_pos_imp(1) [of b k i] by blast
      ultimately show ?thesis by auto
    next
      case kq: True
      have "ls' ! k = (ls ! k) OR push_bit (push_bit 3 (i mod ciL)) (ucast (buf ! i))"
        using kq iq by (simp add: ls'_def ciL_def)
      then have "bit (ls' ! k) b \<longleftrightarrow> bit (ls ! k) b \<or>
          (b < 32 \<and> (i mod 4) * 8 \<le> b \<and> b - (i mod 4) * 8 < 8 \<and> bit (buf ! i) (b - (i mod 4) * 8))"
        by (simp only: bit_or_step)
      also have "\<dots> \<longleftrightarrow> bit (ls ! k) b \<or> (b < 32 \<and> 4 * k + b div 8 = i \<and> bit (buf ! i) (b mod 8))"
      proof (cases "4 * k + b div 8 = i")
        case here: True
        show ?thesis
        proof (cases "b < 32")
          case True
          have "(i mod 4) * 8 \<le> b" and "b - (i mod 4) * 8 = b mod 8"
            using byte_pos_imp [OF True here] by simp_all
          then show ?thesis using here by simp
        next
          case False
          then show ?thesis by simp
        qed
      next
        case there: False
        then have "\<not> ((i mod 4) * 8 \<le> b \<and> b - (i mod 4) * 8 < 8)"
          using kq byte_pos_conv [of k i b] by blast
        then show ?thesis using there by blast
      qed
      finally show ?thesis .
    qed
    have "i \<le> 4 * k + b div 8 \<longleftrightarrow> 4 * k + b div 8 = i \<or> i + 1 \<le> 4 * k + b div 8" by linarith
    then show ?thesis unfolding unf ih new using True by blast
  qed
qed

lemma CHARS_TO_LIMBS_bound: "buflen \<le> 4 * CHARS_TO_LIMBS buflen"
proof -
  have "4 * (buflen div 4) + buflen mod 4 = buflen" by simp
  moreover have "buflen mod 4 < 4" by simp
  ultimately show ?thesis
    unfolding CHARS_TO_LIMBS_def ciL_def by (cases "buflen mod 4 = 0") simp_all
qed

lemma replicate_update_same [simp]: "(replicate n x)[i := x] = replicate n x"
  by (cases "i < n") (simp_all add: list_update_same_conv list_update_beyond)

lemma mpi_update_s_p:
  "(X :: mbedtls_mpi)\<lparr>mpi_s := s', mpi_p := p'\<rparr> = \<lparr>mpi_s = s', mpi_n = mpi_n X, mpi_p = p'\<rparr>"
  by (cases X) simp

lemma or_bytes_zero_bytes:
  assumes "n \<le> 4 * L" and "n \<le> length buf"
  shows "limbs_bytes (or_bytes (replicate L 0) buf 0 n) = take n buf @ replicate (4 * L - n) 0"
proof (rule nth_equalityI)
  show "length (limbs_bytes (or_bytes (replicate L 0) buf 0 n)) = length (take n buf @ replicate (4 * L - n) 0)"
    using assms by simp
next
  fix j
  assume "j < length (limbs_bytes (or_bytes (replicate L 0) buf 0 n))"
  then have j: "j < 4 * L" by simp
  then have q: "j div 4 < L" by linarith
  have n': "n \<le> 4 * length (replicate L (0 :: 32 word))" using assms(1) by simp
  have q': "j div 4 < length (replicate L (0 :: 32 word))" using q by simp
  have "limbs_bytes (or_bytes (replicate L 0) buf 0 n) ! j =
        limb_byte (or_bytes (replicate L 0) buf 0 n ! (j div 4)) (j mod 4)"
    using j by (simp add: nth_limbs_bytes)
  also have "\<dots> = (if j < n then buf ! j else 0)"
  proof (rule bit_word_eqI)
    fix c
    assume "c < LENGTH(8)"
    then have c: "c < 8" by simp
    have d: "(j mod 4 * 8 + c) div 8 = j mod 4" and m: "(j mod 4 * 8 + c) mod 8 = c"
      using c by simp_all
    have lt: "j mod 4 * 8 + c < 32" using c by linarith
    have jj: "4 * (j div 4) + j mod 4 = j" by simp
    have "bit (limb_byte (or_bytes (replicate L 0) buf 0 n ! (j div 4)) (j mod 4)) c \<longleftrightarrow>
          (j < n \<and> bit (buf ! j) c)"
      unfolding bit_limb_byte bit_or_bytes [OF n' q'] d m jj
      using c lt q by simp
    then show "bit (limb_byte (or_bytes (replicate L 0) buf 0 n ! (j div 4)) (j mod 4)) c \<longleftrightarrow>
          bit (if j < n then buf ! j else 0) c"
      by simp
  qed
  also have "\<dots> = (take n buf @ replicate (4 * L - n) 0) ! j"
    using j assms by (simp add: nth_append)
  finally show "limbs_bytes (or_bytes (replicate L 0) buf 0 n) ! j = (take n buf @ replicate (4 * L - n) 0) ! j" .
qed

lemma read_binary_le_result:
  assumes "alloc (max 1 (CHARS_TO_LIMBS buflen))"
  shows "mbedtls_mpi_read_binary_le alloc (X :: mbedtls_mpi) buf buflen =
           (RET_OK, \<lparr>mpi_s = 1, mpi_n = max 1 (CHARS_TO_LIMBS buflen),
                     mpi_p = Some (or_bytes (replicate (max 1 (CHARS_TO_LIMBS buflen)) 0) buf 0 buflen)\<rparr>)"
proof (cases "CHARS_TO_LIMBS buflen = 0")
  case True
  then have a1: "alloc 1" using assms by simp
  show ?thesis
    using True a1
    by (cases "mpi_n X = 0")
       (simp_all add: mbedtls_mpi_read_binary_le_def mbedtls_mpi_grow_def mbedtls_mpi_lset_def
          mbedtls_mpi_init_def mbedtls_mpi_free_def limbs_of_def Let_def mpi_update_s_p)
next
  case False
  then have a: "alloc (CHARS_TO_LIMBS buflen)" and m: "max 1 (CHARS_TO_LIMBS buflen) = CHARS_TO_LIMBS buflen"
    using assms by (simp_all add: max_def)
  show ?thesis
    unfolding m using False a
    by (cases "mpi_n X = CHARS_TO_LIMBS buflen")
       (simp_all add: mbedtls_mpi_read_binary_le_def mbedtls_mpi_grow_def mbedtls_mpi_lset_def
          mbedtls_mpi_init_def mbedtls_mpi_free_def limbs_of_def Let_def mpi_update_s_p)
qed

lemma le_val_bytes_all_zero: "(\<forall>x \<in> set xs. x = 0) \<Longrightarrow> le_val_bytes xs = 0"
  by (induction xs) simp_all

lemma le_val_bytes_zero_all: "le_val_bytes xs = 0 \<Longrightarrow> x \<in> set xs \<Longrightarrow> x = 0"
  by (induction xs) (auto simp: unsigned_eq_0_iff)

lemma limbs_val_read:
  assumes "buflen \<le> length buf"
  shows "limbs_val (or_bytes (replicate (max 1 (CHARS_TO_LIMBS buflen)) 0) buf 0 buflen) =
         le_val_bytes (take buflen buf)"
proof -
  have b: "buflen \<le> 4 * max 1 (CHARS_TO_LIMBS buflen)"
    using CHARS_TO_LIMBS_bound [of buflen] by (simp add: max_def)
  show ?thesis
    unfolding limbs_val_bytes or_bytes_zero_bytes [OF b assms]
    by (simp add: le_val_bytes_append)
qed

lemma memset_at_nth:
  "off + len \<le> length buf \<Longrightarrow> j < length buf \<Longrightarrow>
   memset_at buf off c len ! j = (if off \<le> j \<and> j < off + len then c else buf ! j)"
  by (auto simp: memset_at_def nth_append min_def)

lemma length_memset_at:
  "off + len \<le> length buf \<Longrightarrow> length (memset_at buf off c len) = length buf"
  by (simp add: memset_at_def)

lemma write_binary_le_fail:
  assumes "\<exists>i. buflen \<le> i \<and> i < mpi_n X * ciL \<and> GET_BYTE X i \<noteq> 0"
  shows "mbedtls_mpi_write_binary_le X buf buflen = (MBEDTLS_ERR_MPI_BUFFER_TOO_SMALL, buf)"
proof -
  from assms have "\<not> mpi_n X * ciL < buflen" by auto
  moreover from assms have "\<not> excess_bytes_zero X buflen (mpi_n X * ciL)"
    by (simp add: excess_bytes_zero_iff)
  ultimately show ?thesis
    by (simp add: mbedtls_mpi_write_binary_le_def Let_def)
qed

lemma write_binary_le_ok:
  assumes "buflen \<le> length buf"
    and "\<forall>i. buflen \<le> i \<and> i < mpi_n X * ciL \<longrightarrow> GET_BYTE X i = 0"
  shows "fst (mbedtls_mpi_write_binary_le X buf buflen) = RET_OK"
    and "length (snd (mbedtls_mpi_write_binary_le X buf buflen)) = length buf"
    and "\<forall>i < buflen. snd (mbedtls_mpi_write_binary_le X buf buflen) ! i =
                           (if i < mpi_n X * ciL then GET_BYTE X i else 0)"
    and "\<forall>i. buflen \<le> i \<and> i < length buf \<longrightarrow>
                 snd (mbedtls_mpi_write_binary_le X buf buflen) ! i = buf ! i"
proof -
  have "fst (mbedtls_mpi_write_binary_le X buf buflen) = RET_OK \<and>
        length (snd (mbedtls_mpi_write_binary_le X buf buflen)) = length buf \<and>
        (\<forall>i < buflen. snd (mbedtls_mpi_write_binary_le X buf buflen) ! i =
                           (if i < mpi_n X * ciL then GET_BYTE X i else 0)) \<and>
        (\<forall>i. buflen \<le> i \<and> i < length buf \<longrightarrow>
                 snd (mbedtls_mpi_write_binary_le X buf buflen) ! i = buf ! i)"
  proof (cases "mpi_n X * ciL < buflen")
    case True
    have w: "mbedtls_mpi_write_binary_le X buf buflen =
          (RET_OK, memset_at (copy_bytes X buf 0 (mpi_n X * ciL)) (mpi_n X * ciL) 0 (buflen - mpi_n X * ciL))"
      using True by (simp add: mbedtls_mpi_write_binary_le_def Let_def)
    have bnd: "mpi_n X * ciL + (buflen - mpi_n X * ciL) \<le> length (copy_bytes X buf 0 (mpi_n X * ciL))"
      using True assms(1) by simp
    show ?thesis
      unfolding w using True assms(1)
      by (auto simp: memset_at_nth [OF bnd] length_memset_at [OF bnd] nth_copy_bytes)
  next
    case False
    have "excess_bytes_zero X buflen (mpi_n X * ciL)"
      using assms(2) by (simp add: excess_bytes_zero_iff)
    then have w: "mbedtls_mpi_write_binary_le X buf buflen = (RET_OK, copy_bytes X buf 0 buflen)"
      using False by (simp add: mbedtls_mpi_write_binary_le_def Let_def)
    show ?thesis
      unfolding w using False assms(1)
      by (auto simp: nth_copy_bytes)
  qed
  then show "fst (mbedtls_mpi_write_binary_le X buf buflen) = RET_OK"
    and "length (snd (mbedtls_mpi_write_binary_le X buf buflen)) = length buf"
    and "\<forall>i < buflen. snd (mbedtls_mpi_write_binary_le X buf buflen) ! i =
                           (if i < mpi_n X * ciL then GET_BYTE X i else 0)"
    and "\<forall>i. buflen \<le> i \<and> i < length buf \<longrightarrow>
                 snd (mbedtls_mpi_write_binary_le X buf buflen) ! i = buf ! i"
    by blast+
qed

lemma GET_BYTE_limbs_bytes:
  assumes "mpi_wf X" and "i < mpi_n X * ciL"
  shows "GET_BYTE X i = limbs_bytes (limbs_of X) ! i"
proof -
  have "i < 4 * length (limbs_of X)" using assms by (simp add: mpi_wf_def ciL_def)
  then show ?thesis by (simp add: nth_limbs_bytes GET_BYTE_limb_byte)
qed

lemma value_fits_excess_zero:
  assumes "mpi_wf X" and "limbs_val (limbs_of X) < 256 ^ buflen"
    and "buflen \<le> i" and "i < mpi_n X * ciL"
  shows "GET_BYTE X i = 0"
proof -
  define LB where "LB = limbs_bytes (limbs_of X)"
  have len: "length LB = mpi_n X * ciL" using assms(1) by (simp add: LB_def mpi_wf_def ciL_def)
  have lt: "buflen \<le> length LB" using assms(3,4) len by simp
  have "le_val_bytes LB = le_val_bytes (take buflen LB @ drop buflen LB)" by simp
  also have "\<dots> = le_val_bytes (take buflen LB) + 256 ^ buflen * le_val_bytes (drop buflen LB)"
    using lt by (simp only: le_val_bytes_append) (simp add: min_def)
  finally have eq: "le_val_bytes LB =
      le_val_bytes (take buflen LB) + 256 ^ buflen * le_val_bytes (drop buflen LB)" .
  have z: "le_val_bytes (drop buflen LB) = 0"
  proof (rule ccontr)
    assume "le_val_bytes (drop buflen LB) \<noteq> 0"
    then have "(256::nat) ^ buflen \<le> 256 ^ buflen * le_val_bytes (drop buflen LB)"
      by simp
    with eq have "(256::nat) ^ buflen \<le> le_val_bytes LB" by linarith
    then show False using assms(2) by (simp add: LB_def limbs_val_bytes)
  qed
  have "drop buflen LB ! (i - buflen) \<in> set (drop buflen LB)"
    using assms(3,4) len by (intro nth_mem) simp
  then have "LB ! i \<in> set (drop buflen LB)"
    using assms(3,4) len by simp
  from le_val_bytes_zero_all [OF z this] show ?thesis
    using GET_BYTE_limbs_bytes [OF assms(1,4)] by (simp add: LB_def)
qed

lemma write_binary_le_value:
  assumes "mpi_wf X" and "buflen \<le> length buf"
    and "\<forall>i. buflen \<le> i \<and> i < mpi_n X * ciL \<longrightarrow> GET_BYTE X i = 0"
  shows "le_val_bytes (take buflen (snd (mbedtls_mpi_write_binary_le X buf buflen))) =
         limbs_val (limbs_of X)"
proof -
  define LB where "LB = limbs_bytes (limbs_of X)"
  define B where "B = LB @ replicate buflen 0"
  define buf' where "buf' = snd (mbedtls_mpi_write_binary_le X buf buflen)"
  have len: "length LB = mpi_n X * ciL" using assms(1) by (simp add: LB_def mpi_wf_def ciL_def)
  have lb': "length buf' = length buf"
    and nth': "\<forall>i < buflen. buf' ! i = (if i < mpi_n X * ciL then GET_BYTE X i else 0)"
    using write_binary_le_ok [OF assms(2,3)] by (simp_all add: buf'_def)
  have tk: "take buflen buf' = take buflen B"
  proof (rule nth_equalityI)
    show "length (take buflen buf') = length (take buflen B)"
      using lb' assms(2) by (simp add: B_def)
  next
    fix i
    assume "i < length (take buflen buf')"
    then have i: "i < buflen" by simp
    show "take buflen buf' ! i = take buflen B ! i"
      using i nth' len GET_BYTE_limbs_bytes [OF assms(1), of i]
      by (simp add: B_def nth_append LB_def)
  qed
  have zero: "\<forall>x \<in> set (drop buflen B). x = 0"
  proof
    fix x
    assume "x \<in> set (drop buflen B)"
    then obtain k where k: "k < length (drop buflen B)" "x = drop buflen B ! k"
      by (auto simp: in_set_conv_nth)
    define j where "j = buflen + k"
    have j: "buflen \<le> j" "j < length B" "x = B ! j"
      using k by (simp_all add: j_def)
    show "x = 0"
    proof (cases "j < mpi_n X * ciL")
      case True
      then have "B ! j = GET_BYTE X j"
        using len GET_BYTE_limbs_bytes [OF assms(1) True] by (simp add: B_def nth_append LB_def)
      then show ?thesis using assms(3) j True by simp
    next
      case False
      then show ?thesis using j len by (simp add: B_def nth_append)
    qed
  qed
  have "le_val_bytes B = le_val_bytes (take buflen B @ drop buflen B)" by simp
  also have "\<dots> = le_val_bytes (take buflen B)"
    by (simp only: le_val_bytes_append le_val_bytes_all_zero [OF zero] mult_0_right add_0_right)
  finally have "le_val_bytes (take buflen B) = le_val_bytes LB"
    by (simp add: B_def le_val_bytes_append)
  then show ?thesis
    using tk by (simp add: buf'_def [symmetric] LB_def limbs_val_bytes)
qed

lemma limbs_val_replicate_0 [simp]: "limbs_val (replicate k 0) = 0"
  by (induction k) simp_all

lemma lset_one_value:
  assumes "alloc 1"
  shows "mpi_value (snd (mbedtls_mpi_lset alloc Z 1)) = 1"
proof (cases "mpi_n Z")
  case 0
  then show ?thesis
    using assms by (simp add: mbedtls_mpi_lset_def mbedtls_mpi_grow_def mpi_value_def limbs_of_def)
next
  case (Suc k)
  then show ?thesis
    by (simp add: mbedtls_mpi_lset_def mbedtls_mpi_grow_def mpi_value_def limbs_of_def)
qed

lemma read_binary_le_value:
  assumes "alloc (max 1 (CHARS_TO_LIMBS buflen))" and "buflen \<le> length buf"
  shows "mpi_value (snd (mbedtls_mpi_read_binary_le alloc X buf buflen)) =
           int (le_val_bytes (take buflen buf))"
  using read_binary_le_result [of alloc buflen X buf] limbs_val_read [of buflen buf] assms
  by (simp add: mpi_value_def limbs_of_def)

lemma write_binary_le_fail_keeps:
  "fst (mbedtls_mpi_write_binary_le X buf buflen) = MBEDTLS_ERR_MPI_BUFFER_TOO_SMALL \<Longrightarrow>
   snd (mbedtls_mpi_write_binary_le X buf buflen) = buf"
  by (simp add: mbedtls_mpi_write_binary_le_def Let_def split: if_splits)

section \<open>The paths through the three operations\<close>

lemma length_write_binary_le [simp]:
  "buflen \<le> length buf \<Longrightarrow> length (snd (mbedtls_mpi_write_binary_le X buf buflen)) = length buf"
  by (simp add: mbedtls_mpi_write_binary_le_def Let_def memset_at_def)

lemma length_engine_store [simp]: "length (engine_store buf out) = length buf"
  by (simp add: engine_store_def)

lemma length_stack_array [simp]: "length (stack_array pf k word_len) = word_len * 4"
  by (simp add: stack_array_def)

lemma memset_at_whole: "length buf = sz \<Longrightarrow> memset_at buf 0 c sz = replicate sz c"
  by (simp add: memset_at_def)

lemma check_pubkey_null:
  "grp = None \<or> pt = None \<Longrightarrow>
   ecp_alt_b91_backend_check_pubkey pf w grp pt = (MBEDTLS_ERR_ECP_BAD_INPUT_DATA, w, None)"
  by (auto simp: ecp_alt_b91_backend_check_pubkey_def)

lemma check_pubkey_too_wide:
  "PKE_OPERAND_MAX_WORD_LEN pf < GET_WORD_LEN (grp_pbits g) \<Longrightarrow>
   ecp_alt_b91_backend_check_pubkey pf w (Some g) (Some p) =
     (MBEDTLS_ERR_PLATFORM_FEATURE_UNSUPPORTED, w, None)"
  by (simp add: ecp_alt_b91_backend_check_pubkey_def Let_def)

lemma check_pubkey_no_curve:
  assumes "GET_WORD_LEN (grp_pbits g) \<le> PKE_OPERAND_MAX_WORD_LEN pf"
    and "ecp_get_type g \<noteq> ECP_TYPE_SHORT_WEIERSTRASS \<or> eccp_curve_get g = None"
  shows "ecp_alt_b91_backend_check_pubkey pf w (Some g) (Some p) =
     (MBEDTLS_ERR_PLATFORM_FEATURE_UNSUPPORTED, w,
      Some (replicate 2 (replicate (GET_WORD_LEN (grp_pbits g) * 4) 0)))"
  using assms
  by (auto simp: ecp_alt_b91_backend_check_pubkey_def check_pubkey_weierstrass_def Let_def
        memset_at_whole numeral_2_eq_2)

lemma check_pubkey_engine:
  assumes "GET_WORD_LEN (grp_pbits g) \<le> PKE_OPERAND_MAX_WORD_LEN pf"
    and "ecp_get_type g = ECP_TYPE_SHORT_WEIERSTRASS"
    and "eccp_curve_get g = Some c"
    and "Qx = snd (mbedtls_mpi_write_binary_le (pt_X p)
                 (stack_array pf 0 (GET_WORD_LEN (grp_pbits g))) (GET_WORD_LEN (grp_pbits g) * 4))"
    and "Qy = snd (mbedtls_mpi_write_binary_le (pt_Y p)
                 (stack_array pf 1 (GET_WORD_LEN (grp_pbits g))) (GET_WORD_LEN (grp_pbits g) * 4))"
    and "pke_eccp_point_verify pf (hw w) c Qx Qy = (rc, h)"
  shows "ecp_alt_b91_backend_check_pubkey pf w (Some g) (Some p) =
     ((if rc = PKE_SUCCESS then RET_OK else MBEDTLS_ERR_ECP_INVALID_KEY),
      w\<lparr>hw := h, trace := trace w @ [EV_lock, EV_eccp_point_verify c Qx Qy, EV_unlock]\<rparr>,
      Some (replicate 2 (replicate (GET_WORD_LEN (grp_pbits g) * 4) 0)))"
  using assms
  by (simp add: ecp_alt_b91_backend_check_pubkey_def check_pubkey_weierstrass_def Let_def
        memset_at_whole numeral_2_eq_2 call_eccp_point_verify_def mbedtls_ecp_lock_def
        mbedtls_ecp_unlock_def)

lemma mul_null:
  "grp = None \<or> R = None \<or> m = None \<or> P = None \<Longrightarrow>
   ecp_alt_b91_backend_mul pf w grp R m P = (MBEDTLS_ERR_ECP_BAD_INPUT_DATA, w, R, None)"
  by (auto simp: ecp_alt_b91_backend_mul_def)

lemma mul_too_wide:
  "PKE_OPERAND_MAX_WORD_LEN pf < GET_WORD_LEN (grp_pbits g) \<Longrightarrow>
   ecp_alt_b91_backend_mul pf w (Some g) (Some R) (Some m) (Some P) =
     (MBEDTLS_ERR_PLATFORM_FEATURE_UNSUPPORTED, w, Some R, None)"
  by (simp add: ecp_alt_b91_backend_mul_def Let_def)

lemma mul_no_curve:
  assumes "GET_WORD_LEN (grp_pbits g) \<le> PKE_OPERAND_MAX_WORD_LEN pf"
    and "ecp_get_type g = ECP_TYPE_SHORT_WEIERSTRASS \<longrightarrow> eccp_curve_get g = None"
    and "ecp_get_type g = ECP_TYPE_MONTGOMERY \<longrightarrow> mont_curve_get g = None"
  shows "ecp_alt_b91_backend_mul pf w (Some g) (Some R) (Some m) (Some P) =
     (MBEDTLS_ERR_PLATFORM_FEATURE_UNSUPPORTED, w, Some R,
      Some (replicate 3 (replicate (GET_WORD_LEN (grp_pbits g) * 4) 0)))"
  using assms
  by (auto simp: ecp_alt_b91_backend_mul_def mul_weierstrass_def mul_montgomery_def Let_def
        memset_at_whole numeral_3_eq_3)

lemma mul_weierstrass_engine:
  assumes "GET_WORD_LEN (grp_pbits g) \<le> PKE_OPERAND_MAX_WORD_LEN pf"
    and "ecp_get_type g = ECP_TYPE_SHORT_WEIERSTRASS"
    and "eccp_curve_get g = Some c"
    and "sz = GET_WORD_LEN (grp_pbits g) * 4"
    and "ms = snd (mbedtls_mpi_write_binary_le m (stack_array pf 0 (GET_WORD_LEN (grp_pbits g))) sz)"
    and "Qx = snd (mbedtls_mpi_write_binary_le (pt_X P) (stack_array pf 1 (GET_WORD_LEN (grp_pbits g))) sz)"
    and "Qy = snd (mbedtls_mpi_write_binary_le (pt_Y P) (stack_array pf 2 (GET_WORD_LEN (grp_pbits g))) sz)"
    and "pke_eccp_point_mul pf (hw w) c ms Qx Qy = (rc, ox, oy, h)"
  shows "ecp_alt_b91_backend_mul pf w (Some g) (Some R) (Some m) (Some P) =
     ((if rc = PKE_SUCCESS then RET_OK else MBEDTLS_ERR_PLATFORM_HW_ACCEL_FAILED),
      w\<lparr>hw := h, trace := trace w @ [EV_lock, EV_eccp_point_mul c ms Qx Qy, EV_unlock]\<rparr>,
      Some (if rc = PKE_SUCCESS
            then R\<lparr>pt_X := snd (mbedtls_mpi_read_binary_le (alloc_ok pf) (pt_X R) (engine_store Qx ox) sz),
                   pt_Y := snd (mbedtls_mpi_read_binary_le (alloc_ok pf) (pt_Y R) (engine_store Qy oy) sz),
                   pt_Z := snd (mbedtls_mpi_lset (alloc_ok pf) (pt_Z R) 1)\<rparr>
            else R),
      Some (replicate 3 (replicate sz 0)))"
  using assms
  by (simp add: ecp_alt_b91_backend_mul_def mul_weierstrass_def Let_def
        memset_at_whole numeral_3_eq_3 call_eccp_point_mul_def mbedtls_ecp_lock_def
        mbedtls_ecp_unlock_def)

lemma mul_montgomery_engine:
  assumes "GET_WORD_LEN (grp_pbits g) \<le> PKE_OPERAND_MAX_WORD_LEN pf"
    and "ecp_get_type g = ECP_TYPE_MONTGOMERY"
    and "mont_curve_get g = Some c"
    and "sz = GET_WORD_LEN (grp_pbits g) * 4"
    and "ms = snd (mbedtls_mpi_write_binary_le m (stack_array pf 0 (GET_WORD_LEN (grp_pbits g))) sz)"
    and "Qx = snd (mbedtls_mpi_write_binary_le (pt_X P) (stack_array pf 1 (GET_WORD_LEN (grp_pbits g))) sz)"
    and "pke_x25519_point_mul pf (hw w) c ms Qx = (rc, ou, h)"
  shows "ecp_alt_b91_backend_mul pf w (Some g) (Some R) (Some m) (Some P) =
     ((if rc = PKE_SUCCESS then RET_OK else MBEDTLS_ERR_PLATFORM_HW_ACCEL_FAILED),
      w\<lparr>hw := h, trace := trace w @ [EV_lock, EV_x25519_point_mul c ms Qx, EV_unlock]\<rparr>,
      Some (if rc = PKE_SUCCESS
            then R\<lparr>pt_X := snd (mbedtls_mpi_read_binary_le (alloc_ok pf) (pt_X R) (engine_store Qx ou) sz),
                   pt_Y := snd (mbedtls_mpi_lset (alloc_ok pf) (pt_Y R) 0),
                   pt_Z := snd (mbedtls_mpi_lset (alloc_ok pf) (pt_Z R) 1)\<rparr>
            else R),
      Some (replicate 3 (replicate sz 0)))"
  using assms
  by (simp add: ecp_alt_b91_backend_mul_def mul_montgomery_def Let_def
        memset_at_whole numeral_3_eq_3 call_x25519_point_mul_def mbedtls_ecp_lock_def
        mbedtls_ecp_unlock_def)

lemma muladd_null:
  "grp = None \<or> R = None \<or> m = None \<or> P = None \<or> n = None \<or> Q = None \<Longrightarrow>
   ecp_alt_b91_backend_muladd pf w grp R m P n Q = (MBEDTLS_ERR_ECP_BAD_INPUT_DATA, w, R, None)"
  by (auto simp: ecp_alt_b91_backend_muladd_def)

lemma muladd_too_wide:
  "PKE_OPERAND_MAX_WORD_LEN pf < GET_WORD_LEN (grp_pbits g) \<Longrightarrow>
   ecp_alt_b91_backend_muladd pf w (Some g) (Some R) (Some m) (Some P) (Some n) (Some Q) =
     (MBEDTLS_ERR_PLATFORM_FEATURE_UNSUPPORTED, w, Some R, None)"
  by (simp add: ecp_alt_b91_backend_muladd_def Let_def)

lemma muladd_no_curve:
  assumes "GET_WORD_LEN (grp_pbits g) \<le> PKE_OPERAND_MAX_WORD_LEN pf"
    and "ecp_get_type g \<noteq> ECP_TYPE_SHORT_WEIERSTRASS \<or> eccp_curve_get g = None"
  shows "ecp_alt_b91_backend_muladd pf w (Some g) (Some R) (Some m) (Some P) (Some n) (Some Q) =
     (MBEDTLS_ERR_PLATFORM_FEATURE_UNSUPPORTED, w, Some R,
      Some (replicate 5 (replicate (GET_WORD_LEN (grp_pbits g) * 4) 0)))"
  using assms
  by (auto simp: ecp_alt_b91_backend_muladd_def muladd_weierstrass_def Let_def
        memset_at_whole eval_nat_numeral)

lemma muladd_engine:
  assumes "GET_WORD_LEN (grp_pbits g) \<le> PKE_OPERAND_MAX_WORD_LEN pf"
    and "ecp_get_type g = ECP_TYPE_SHORT_WEIERSTRASS"
    and "eccp_curve_get g = Some c"
    and "sz = GET_WORD_LEN (grp_pbits g) * 4"
    and "x1 = snd (mbedtls_mpi_write_binary_le (pt_X P) (stack_array pf 1 (GET_WORD_LEN (grp_pbits g))) sz)"
    and "y1 = snd (mbedtls_mpi_write_binary_le (pt_Y P) (stack_array pf 2 (GET_WORD_LEN (grp_pbits g))) sz)"
    and "x2 = snd (mbedtls_mpi_write_binary_le (pt_X Q) (stack_array pf 3 (GET_WORD_LEN (grp_pbits g))) sz)"
    and "y2 = snd (mbedtls_mpi_write_binary_le (pt_Y Q) (stack_array pf 4 (GET_WORD_LEN (grp_pbits g))) sz)"
    and "ms1 = snd (mbedtls_mpi_write_binary_le m (stack_array pf 0 (GET_WORD_LEN (grp_pbits g))) sz)"
    and "pke_eccp_point_mul pf (hw w) c ms1 x1 y1 = (rc1, ox1, oy1, h1)"
    and "ms2 = snd (mbedtls_mpi_write_binary_le n ms1 sz)"
    and "pke_eccp_point_mul pf h1 c ms2 x2 y2 = (rc2, ox2, oy2, h2)"
    and "pke_eccp_point_add pf h2 c (engine_store x1 ox1) (engine_store y1 oy1)
           (engine_store x2 ox2) (engine_store y2 oy2) = (rc3, ox3, oy3, h3)"
  shows "ecp_alt_b91_backend_muladd pf w (Some g) (Some R) (Some m) (Some P) (Some n) (Some Q) =
     ((if rc1 = PKE_SUCCESS \<and> rc2 = PKE_SUCCESS \<and> rc3 = PKE_SUCCESS
       then RET_OK else MBEDTLS_ERR_PLATFORM_HW_ACCEL_FAILED),
      w\<lparr>hw := (if rc1 \<noteq> PKE_SUCCESS then h1 else if rc2 \<noteq> PKE_SUCCESS then h2 else h3),
        trace := trace w @ [EV_lock, EV_eccp_point_mul c ms1 x1 y1] @
                 (if rc1 = PKE_SUCCESS
                  then [EV_eccp_point_mul c ms2 x2 y2] @
                       (if rc2 = PKE_SUCCESS
                        then [EV_eccp_point_add c (engine_store x1 ox1) (engine_store y1 oy1)
                                (engine_store x2 ox2) (engine_store y2 oy2)]
                        else [])
                  else []) @ [EV_unlock]\<rparr>,
      Some (if rc1 = PKE_SUCCESS \<and> rc2 = PKE_SUCCESS \<and> rc3 = PKE_SUCCESS
            then R\<lparr>pt_X := snd (mbedtls_mpi_read_binary_le (alloc_ok pf) (pt_X R)
                                  (engine_store (engine_store x1 ox1) ox3) sz),
                   pt_Y := snd (mbedtls_mpi_read_binary_le (alloc_ok pf) (pt_Y R)
                                  (engine_store (engine_store y1 oy1) oy3) sz),
                   pt_Z := snd (mbedtls_mpi_lset (alloc_ok pf) (pt_Z R) 1)\<rparr>
            else R),
      Some (replicate 5 (replicate sz 0)))"
  using assms
  by (simp add: ecp_alt_b91_backend_muladd_def muladd_weierstrass_def Let_def
        memset_at_whole eval_nat_numeral call_eccp_point_mul_def call_eccp_point_add_def
        mbedtls_ecp_lock_def mbedtls_ecp_unlock_def)

lemma triple_collapse: "t = (fst t, fst (snd t), snd (snd t))"
  by simp

lemma quad_collapse: "t = (fst t, fst (snd t), fst (snd (snd t)), snd (snd (snd t)))"
  by simp

lemma locked_section_shapes:
  "locked_section [EV_lock, EV_eccp_point_mul c k x y, EV_unlock]"
  "locked_section [EV_lock, EV_eccp_point_mul c k x y, EV_eccp_point_mul c' k' x' y', EV_unlock]"
  "locked_section [EV_lock, EV_eccp_point_mul c k x y, EV_eccp_point_mul c' k' x' y',
     EV_eccp_point_add c'' x1 y1 x2 y2, EV_unlock]"
  by (simp_all add: locked_section_def)

section \<open>Facts about the examples\<close>

lemma mpi_example_bytes:
  "GET_BYTE mpi_example 0 = 1" "GET_BYTE mpi_example 1 = 2" "GET_BYTE mpi_example 2 = 3"
  "GET_BYTE mpi_example 3 = 4" "GET_BYTE mpi_example 4 = 5" "GET_BYTE mpi_example 5 = 0"
  "GET_BYTE mpi_example 6 = 0" "GET_BYTE mpi_example 7 = 0"
  by (simp_all add: GET_BYTE_def mpi_example_def limbs_of_def ciL_def)

lemma mpi_wide_too_small:
  "length buf = 32 \<Longrightarrow>
   fst (mbedtls_mpi_write_binary_le mpi_wide buf 32) = MBEDTLS_ERR_MPI_BUFFER_TOO_SMALL"
proof -
  have "GET_BYTE mpi_wide 32 \<noteq> 0"
    by (simp add: GET_BYTE_def mpi_wide_def limbs_of_def ciL_def nth_append)
  then have "\<exists>i. 32 \<le> i \<and> i < mpi_n mpi_wide * ciL \<and> GET_BYTE mpi_wide i \<noteq> 0"
    by (intro exI [of _ 32]) (simp add: mpi_wide_def ciL_def)
  from write_binary_le_fail [OF this] show ?thesis by simp
qed

lemma example_group_facts:
  "ecp_get_type grp_secp256r1 = ECP_TYPE_SHORT_WEIERSTRASS"
  "eccp_curve_get grp_secp256r1 = Some secp256r1"
  "GET_WORD_LEN (grp_pbits grp_secp256r1) = 8"
  "ecp_get_type grp_curve25519 = ECP_TYPE_MONTGOMERY"
  "mont_curve_get grp_curve25519 = Some x25519"
  "GET_WORD_LEN (grp_pbits grp_curve25519) = 8"
  "ecp_get_type grp_secp384r1 = ECP_TYPE_SHORT_WEIERSTRASS"
  "eccp_curve_get grp_secp384r1 = None"
  "GET_WORD_LEN (grp_pbits grp_secp384r1) = 12"
  by (simp_all add: ecp_get_type_def eccp_curve_get_def mont_curve_get_def GET_WORD_LEN_def
        grp_secp256r1_def grp_curve25519_def grp_secp384r1_def pt_example_def mpi_example_def
        mpi_empty_def eccp_curve_linking_def mont_curve_linking_def)

lemma engine_answering_simps [simp]:
  "PKE_OPERAND_MAX_WORD_LEN (engine_answering rc) = 8"
  "alloc_ok (engine_answering rc) k"
  "pke_eccp_point_verify (engine_answering rc) h c x y = (rc, Suc h)"
  "pke_eccp_point_mul (engine_answering rc) h c k' x y = (rc, x, y, Suc h)"
  "pke_x25519_point_mul (engine_answering rc) h d k' u = (rc, u, Suc h)"
  "pke_eccp_point_add (engine_answering rc) h c x1 y1 x2 y2 = (rc, x1, y1, Suc h)"
  by (simp_all add: engine_answering_def)

lemma stack_array_engine_answering:
  "stack_array (engine_answering rc) k wl = replicate (wl * 4) 0xAA"
  by (simp add: stack_array_def engine_answering_def map_replicate_const)

lemma engine_store_self [simp]: "engine_store buf buf = buf"
  by (simp add: engine_store_def)

lemma engine_out_of_memory_simps [simp]:
  "PKE_OPERAND_MAX_WORD_LEN engine_out_of_memory = 8"
  "\<not> alloc_ok engine_out_of_memory k"
  "pke_eccp_point_mul engine_out_of_memory h c k' x y = (PKE_SUCCESS, x, y, Suc h)"
  "pke_eccp_point_add engine_out_of_memory h c x1 y1 x2 y2 = (PKE_SUCCESS, x1, y1, Suc h)"
  "stack_array engine_out_of_memory j wl = replicate (wl * 4) 0xAA"
  by (simp_all add: engine_out_of_memory_def engine_answering_def stack_array_def map_replicate_const)

lemma read_binary_le_no_memory:
  "0 < buflen \<Longrightarrow>
   mbedtls_mpi_read_binary_le (\<lambda>k. False) mpi_empty buf buflen =
     (MBEDTLS_ERR_MPI_ALLOC_FAILED, mpi_empty)"
proof -
  assume "0 < buflen"
  then have "CHARS_TO_LIMBS buflen \<noteq> 0"
    by (auto simp: CHARS_TO_LIMBS_def ciL_def)
  then show ?thesis
    by (simp add: mbedtls_mpi_read_binary_le_def mbedtls_mpi_grow_def mbedtls_mpi_init_def
          mbedtls_mpi_free_def mpi_empty_def Let_def)
qed

lemma lset_no_memory:
  "mbedtls_mpi_lset (\<lambda>k. False) mpi_empty z = (MBEDTLS_ERR_MPI_ALLOC_FAILED, mpi_empty)"
  by (simp add: mbedtls_mpi_lset_def mbedtls_mpi_grow_def mpi_empty_def)

section \<open>The claims about the codec\<close>

text \<open>
  Claim C2. For a number \<open>X\<close> and a destination of \<open>buflen\<close> bytes,
  \<open>mbedtls_mpi_write_binary_le\<close> returns \<open>MBEDTLS_ERR_MPI_BUFFER_TOO_SMALL\<close> exactly when
  some stored byte of \<open>X\<close> at an index from \<open>buflen\<close> up to \<open>X->n * ciL\<close> is not zero. When
  all those bytes are zero it returns 0, the first \<open>buflen\<close> bytes of the buffer hold the
  stored bytes of \<open>X\<close> followed by zeros, and the bytes past \<open>buflen\<close> are untouched.
\<close>

theorem write_binary_le_buffer_too_small_iff:
  assumes "mpi_wf X" and "buflen \<le> length buf"
  shows "(fst (mbedtls_mpi_write_binary_le X buf buflen) = MBEDTLS_ERR_MPI_BUFFER_TOO_SMALL \<longleftrightarrow>
           (\<exists>i. buflen \<le> i \<and> i < mpi_n X * ciL \<and> GET_BYTE X i \<noteq> 0))
       \<and> ((\<forall>i. buflen \<le> i \<and> i < mpi_n X * ciL \<longrightarrow> GET_BYTE X i = 0) \<longrightarrow>
            fst (mbedtls_mpi_write_binary_le X buf buflen) = RET_OK \<and>
            length (snd (mbedtls_mpi_write_binary_le X buf buflen)) = length buf \<and>
            (\<forall>i < buflen. snd (mbedtls_mpi_write_binary_le X buf buflen) ! i =
                           (if i < mpi_n X * ciL then GET_BYTE X i else 0)) \<and>
            (\<forall>i. buflen \<le> i \<and> i < length buf \<longrightarrow>
                 snd (mbedtls_mpi_write_binary_le X buf buflen) ! i = buf ! i))"
proof (cases "\<exists>i. buflen \<le> i \<and> i < mpi_n X * ciL \<and> GET_BYTE X i \<noteq> 0")
  case True
  from write_binary_le_fail [OF True] True show ?thesis by simp
next
  case False
  then have z: "\<forall>i. buflen \<le> i \<and> i < mpi_n X * ciL \<longrightarrow> GET_BYTE X i = 0" by blast
  from write_binary_le_ok [OF assms(2) z] False show ?thesis by simp
qed

text \<open>
  The number with limbs \<open>0x04030201, 0x00000005\<close>: a 4-byte destination cuts off the
  byte 5 and is refused, a 5-byte destination is filled.
\<close>

theorem write_binary_le_buffer_too_small_iff_witness:
  "mpi_wf mpi_example \<and> (4::nat) \<le> length (replicate 6 (0xAA :: byte)) \<and>
   GET_BYTE mpi_example 4 \<noteq> 0 \<and>
   fst (mbedtls_mpi_write_binary_le mpi_example (replicate 6 0xAA) 4) = MBEDTLS_ERR_MPI_BUFFER_TOO_SMALL \<and>
   fst (mbedtls_mpi_write_binary_le mpi_example (replicate 6 0xAA) 5) = RET_OK \<and>
   snd (mbedtls_mpi_write_binary_le mpi_example (replicate 6 0xAA) 5) ! 4 = 5 \<and>
   snd (mbedtls_mpi_write_binary_le mpi_example (replicate 6 0xAA) 5) ! 5 = 0xAA"
proof -
  have wf: "mpi_wf mpi_example" by (simp add: mpi_wf_def mpi_example_def limbs_of_def)
  have l4: "(4::nat) \<le> length (replicate 6 (0xAA :: byte))" by simp
  have l5: "(5::nat) \<le> length (replicate 6 (0xAA :: byte))" by simp
  have nz: "GET_BYTE mpi_example 4 \<noteq> 0" by (simp add: mpi_example_bytes)
  have n: "mpi_n mpi_example * ciL = 8" by (simp add: mpi_example_def ciL_def)
  have ex: "\<exists>i. 4 \<le> i \<and> i < mpi_n mpi_example * ciL \<and> GET_BYTE mpi_example i \<noteq> 0"
    using nz n by (intro exI [of _ 4]) simp
  have z: "\<forall>i. 5 \<le> i \<and> i < mpi_n mpi_example * ciL \<longrightarrow> GET_BYTE mpi_example i = 0"
  proof (intro allI impI)
    fix i :: nat
    assume "5 \<le> i \<and> i < mpi_n mpi_example * ciL"
    then have "i = 5 \<or> i = 6 \<or> i = 7" unfolding n by linarith
    then show "GET_BYTE mpi_example i = 0" by (auto simp: mpi_example_bytes)
  qed
  from write_binary_le_buffer_too_small_iff [OF wf l4] ex
  have a: "fst (mbedtls_mpi_write_binary_le mpi_example (replicate 6 0xAA) 4) = MBEDTLS_ERR_MPI_BUFFER_TOO_SMALL"
    by blast
  from write_binary_le_buffer_too_small_iff [OF wf l5] z
  have b: "fst (mbedtls_mpi_write_binary_le mpi_example (replicate 6 0xAA) 5) = RET_OK"
    and c: "\<forall>i < 5. snd (mbedtls_mpi_write_binary_le mpi_example (replicate 6 0xAA) 5) ! i =
                           (if i < mpi_n mpi_example * ciL then GET_BYTE mpi_example i else 0)"
    and d: "\<forall>i. 5 \<le> i \<and> i < length (replicate 6 (0xAA :: byte)) \<longrightarrow>
                 snd (mbedtls_mpi_write_binary_le mpi_example (replicate 6 0xAA) 5) ! i = replicate 6 (0xAA :: byte) ! i"
    by blast+
  from c have c4: "snd (mbedtls_mpi_write_binary_le mpi_example (replicate 6 0xAA) 5) ! 4 = 5"
    by (simp add: n mpi_example_bytes)
  from d have d5: "snd (mbedtls_mpi_write_binary_le mpi_example (replicate 6 0xAA) 5) ! 5 = 0xAA"
    by simp
  from wf l4 nz a b c4 d5 show ?thesis by blast
qed

text \<open>
  Claim C3. For a non-negative number \<open>v\<close> whose value is below \<open>2 ^ (8 * w)\<close>, encoding
  into a buffer of \<open>w\<close> bytes succeeds, and decoding that buffer (the library being able
  to provide the limbs) succeeds with a number of the same value.
\<close>

theorem codec_round_trip:
  assumes "mpi_wf v" and "0 \<le> mpi_value v" and "mpi_value v < 2 ^ (8 * w)"
    and "length buf = w" and "alloc (max 1 (CHARS_TO_LIMBS w))"
  shows "fst (mbedtls_mpi_write_binary_le v buf w) = RET_OK \<and>
         fst (mbedtls_mpi_read_binary_le alloc X (snd (mbedtls_mpi_write_binary_le v buf w)) w) = RET_OK \<and>
         mpi_value (snd (mbedtls_mpi_read_binary_le alloc X (snd (mbedtls_mpi_write_binary_le v buf w)) w)) =
           mpi_value v"
proof -
  define V where "V = limbs_val (limbs_of v)"
  have val: "mpi_value v = int V"
  proof (cases "mpi_s v = 1")
    case True
    then show ?thesis by (simp add: mpi_value_def V_def)
  next
    case False
    then have "mpi_s v = - 1" using assms(1) by (simp add: mpi_wf_def)
    then have "mpi_value v = - int V" by (simp add: mpi_value_def V_def)
    with assms(2) show ?thesis by simp
  qed
  have "int V < 2 ^ (8 * w)" using assms(3) val by simp
  also have "(2::int) ^ (8 * w) = int (256 ^ w)" by (simp add: power_mult)
  finally have fits: "V < 256 ^ w" by (simp only: of_nat_less_iff)
  have z: "\<forall>i. w \<le> i \<and> i < mpi_n v * ciL \<longrightarrow> GET_BYTE v i = 0"
    using value_fits_excess_zero [OF assms(1)] fits unfolding V_def by blast
  have le: "w \<le> length buf" using assms(4) by simp
  define buf' where "buf' = snd (mbedtls_mpi_write_binary_le v buf w)"
  have ok: "fst (mbedtls_mpi_write_binary_le v buf w) = RET_OK"
    and len': "length buf' = length buf"
    using write_binary_le_ok [OF le z] by (simp_all add: buf'_def)
  have enc: "le_val_bytes (take w buf') = V"
    using write_binary_le_value [OF assms(1) le z] by (simp add: buf'_def V_def)
  have le': "w \<le> length buf'" using len' le by simp
  have rd: "mbedtls_mpi_read_binary_le alloc X buf' w =
           (RET_OK, \<lparr>mpi_s = 1, mpi_n = max 1 (CHARS_TO_LIMBS w),
                     mpi_p = Some (or_bytes (replicate (max 1 (CHARS_TO_LIMBS w)) 0) buf' 0 w)\<rparr>)"
    using assms(5) by (rule read_binary_le_result [of alloc w X buf'])
  have "mpi_value (snd (mbedtls_mpi_read_binary_le alloc X buf' w)) = int (le_val_bytes (take w buf'))"
    unfolding rd using limbs_val_read [OF le'] by (simp add: mpi_value_def limbs_of_def)
  then show ?thesis
    using ok rd enc val by (simp add: buf'_def [symmetric])
qed

text \<open>The value \<open>0x0504030201\<close> through a buffer of five bytes.\<close>

theorem codec_round_trip_witness:
  "mpi_wf mpi_example \<and> 0 \<le> mpi_value mpi_example \<and> mpi_value mpi_example < 2 ^ (8 * 5) \<and>
   length (replicate 5 (0xAA :: byte)) = 5 \<and>
   mpi_value mpi_example = 21542142465 \<and>
   fst (mbedtls_mpi_write_binary_le mpi_example (replicate 5 0xAA) 5) = RET_OK \<and>
   mpi_value (snd (mbedtls_mpi_read_binary_le (\<lambda>k. True) mpi_empty
                (snd (mbedtls_mpi_write_binary_le mpi_example (replicate 5 0xAA) 5)) 5)) = 21542142465"
proof -
  have wf: "mpi_wf mpi_example" by (simp add: mpi_wf_def mpi_example_def limbs_of_def)
  have v: "mpi_value mpi_example = 21542142465"
    by (simp add: mpi_value_def mpi_example_def limbs_of_def)
  have nn: "0 \<le> mpi_value mpi_example" and lt: "mpi_value mpi_example < 2 ^ (8 * 5)"
    unfolding v by simp_all
  have len: "length (replicate 5 (0xAA :: byte)) = 5" by simp
  have al: "(\<lambda>k. True) (max 1 (CHARS_TO_LIMBS 5))" by simp
  from codec_round_trip [OF wf nn lt len, of "\<lambda>k. True" mpi_empty] wf nn lt len v
  show ?thesis by simp
qed

text \<open>
  Claim C4, as the code has it. When the library can provide the limbs,
  \<open>mbedtls_mpi_read_binary_le\<close> returns 0 with a number whose value is the little-endian
  value of the first \<open>buflen\<close> bytes of the buffer. Its limb count is
  \<open>CHARS_TO_LIMBS(buflen)\<close> (one limb for an empty buffer): the least number of limbs
  holding \<open>buflen\<close> bytes, whatever the value. The result does not depend on what the
  destination held before.
\<close>

theorem read_binary_le_decodes:
  assumes "buflen \<le> length buf" and "alloc (max 1 (CHARS_TO_LIMBS buflen))"
  shows "fst (mbedtls_mpi_read_binary_le alloc X buf buflen) = RET_OK \<and>
         mpi_value (snd (mbedtls_mpi_read_binary_le alloc X buf buflen)) =
           int (le_val_bytes (take buflen buf)) \<and>
         mpi_n (snd (mbedtls_mpi_read_binary_le alloc X buf buflen)) = max 1 (CHARS_TO_LIMBS buflen) \<and>
         mpi_wf (snd (mbedtls_mpi_read_binary_le alloc X buf buflen)) \<and>
         mbedtls_mpi_read_binary_le alloc X buf buflen = mbedtls_mpi_read_binary_le alloc Y buf buflen"
proof -
  have rd: "\<And>Z :: mbedtls_mpi. mbedtls_mpi_read_binary_le alloc Z buf buflen =
           (RET_OK, \<lparr>mpi_s = 1, mpi_n = max 1 (CHARS_TO_LIMBS buflen),
                     mpi_p = Some (or_bytes (replicate (max 1 (CHARS_TO_LIMBS buflen)) 0) buf 0 buflen)\<rparr>)"
    using assms(2) by (rule read_binary_le_result)
  show ?thesis
    unfolding rd using limbs_val_read [OF assms(1)]
    by (simp add: mpi_value_def mpi_wf_def limbs_of_def)
qed

text \<open>Eight bytes holding the value 1, decoded over a number that held two other limbs.\<close>

theorem read_binary_le_decodes_witness:
  "(8::nat) \<le> length [1, 0, 0, 0, 0, 0, 0, 0 :: byte] \<and>
   fst (mbedtls_mpi_read_binary_le (\<lambda>k. True) mpi_example [1, 0, 0, 0, 0, 0, 0, 0] 8) = RET_OK \<and>
   mpi_value (snd (mbedtls_mpi_read_binary_le (\<lambda>k. True) mpi_example [1, 0, 0, 0, 0, 0, 0, 0] 8)) = 1 \<and>
   mpi_n (snd (mbedtls_mpi_read_binary_le (\<lambda>k. True) mpi_example [1, 0, 0, 0, 0, 0, 0, 0] 8)) = 2"
proof -
  have len: "(8::nat) \<le> length [1, 0, 0, 0, 0, 0, 0, 0 :: byte]" by simp
  have al: "(\<lambda>k. True) (max 1 (CHARS_TO_LIMBS 8))" by simp
  from read_binary_le_decodes [OF len, of "\<lambda>k. True" mpi_example] len
  show ?thesis by (simp add: CHARS_TO_LIMBS_def ciL_def)
qed

text \<open>
  The limb count is not the least one for the value: eight bytes holding the value 1
  decode to two limbs, and one limb holds the value 1.
\<close>

theorem read_binary_le_not_minimal_counterexample:
  "mpi_value (snd (mbedtls_mpi_read_binary_le (\<lambda>k. True) mpi_empty [1, 0, 0, 0, 0, 0, 0, 0] 8)) = 1 \<and>
   mpi_n (snd (mbedtls_mpi_read_binary_le (\<lambda>k. True) mpi_empty [1, 0, 0, 0, 0, 0, 0, 0] 8)) = 2 \<and>
   limbs_needed 1 = 1"
proof -
  have ob: "or_bytes [0, 0] [1, 0, 0, 0, 0, 0, 0, 0] 0 8 = [1, 0]"
    by (simp add: or_bytes.simps ciL_def)
  have rd: "mbedtls_mpi_read_binary_le (\<lambda>k. True) mpi_empty [1, 0, 0, 0, 0, 0, 0, 0] 8 =
      (RET_OK, \<lparr>mpi_s = 1, mpi_n = 2, mpi_p = Some [1, 0]\<rparr>)"
    by (simp add: mbedtls_mpi_read_binary_le_def mbedtls_mpi_grow_def mbedtls_mpi_lset_def
          mbedtls_mpi_init_def mbedtls_mpi_free_def limbs_of_def Let_def mpi_empty_def
          CHARS_TO_LIMBS_def ciL_def ob numeral_2_eq_2)
  have ln: "limbs_needed 1 = 1"
    by (subst limbs_needed.simps, subst limbs_needed.simps, simp)
  show ?thesis unfolding rd using ln by (simp add: mpi_value_def limbs_of_def)
qed

section \<open>The claims about the operations\<close>

text \<open>
  Claim C1, as the code has it. For a short-Weierstrass group whose curve is registered,
  with non-null arguments and a word length within the accelerator's limit,
  \<open>ecp_alt_b91_backend_check_pubkey\<close> returns 0 when the engine answers \<open>PKE_SUCCESS\<close> to
  the question whether (X, Y) lies on the curve, and \<open>MBEDTLS_ERR_ECP_INVALID_KEY\<close> for
  every other answer of the engine, an internal fault included.
\<close>

theorem check_pubkey_engine_answer:
  assumes "ecp_get_type g = ECP_TYPE_SHORT_WEIERSTRASS"
    and "eccp_curve_get g = Some c"
    and "GET_WORD_LEN (grp_pbits g) \<le> PKE_OPERAND_MAX_WORD_LEN pf"
    and "Qx = snd (mbedtls_mpi_write_binary_le (pt_X p)
                 (stack_array pf 0 (GET_WORD_LEN (grp_pbits g))) (GET_WORD_LEN (grp_pbits g) * 4))"
    and "Qy = snd (mbedtls_mpi_write_binary_le (pt_Y p)
                 (stack_array pf 1 (GET_WORD_LEN (grp_pbits g))) (GET_WORD_LEN (grp_pbits g) * 4))"
  shows "fst (ecp_alt_b91_backend_check_pubkey pf w (Some g) (Some p)) =
           (if fst (pke_eccp_point_verify pf (hw w) c Qx Qy) = PKE_SUCCESS
            then RET_OK else MBEDTLS_ERR_ECP_INVALID_KEY)"
proof -
  obtain rc h where v: "pke_eccp_point_verify pf (hw w) c Qx Qy = (rc, h)"
    by (cases "pke_eccp_point_verify pf (hw w) c Qx Qy")
  from check_pubkey_engine [OF assms(3,1,2,4,5) v] v show ?thesis by simp
qed

text \<open>On secp256r1: a positive and a negative answer of the engine.\<close>

theorem check_pubkey_engine_answer_witness:
  "ecp_get_type grp_secp256r1 = ECP_TYPE_SHORT_WEIERSTRASS \<and>
   eccp_curve_get grp_secp256r1 = Some secp256r1 \<and>
   GET_WORD_LEN (grp_pbits grp_secp256r1) \<le> PKE_OPERAND_MAX_WORD_LEN (engine_answering PKE_SUCCESS) \<and>
   fst (ecp_alt_b91_backend_check_pubkey (engine_answering PKE_SUCCESS) world0
          (Some grp_secp256r1) (Some pt_example)) = RET_OK \<and>
   fst (ecp_alt_b91_backend_check_pubkey (engine_answering PKE_NOT_ON_CURVE) world0
          (Some grp_secp256r1) (Some pt_example)) = MBEDTLS_ERR_ECP_INVALID_KEY"
proof -
  have a: "ecp_get_type grp_secp256r1 = ECP_TYPE_SHORT_WEIERSTRASS"
    and b: "eccp_curve_get grp_secp256r1 = Some secp256r1"
    by (simp_all add: example_group_facts)
  have c: "GET_WORD_LEN (grp_pbits grp_secp256r1) \<le> PKE_OPERAND_MAX_WORD_LEN (engine_answering rc)" for rc
    by (simp add: example_group_facts)
  from check_pubkey_engine_answer [OF a b c refl refl, of PKE_SUCCESS world0 pt_example]
    check_pubkey_engine_answer [OF a b c refl refl, of PKE_NOT_ON_CURVE world0 pt_example]
    a b c [of PKE_SUCCESS]
  show ?thesis by simp
qed

text \<open>
  An engine that reports an internal fault: the operation returns
  \<open>MBEDTLS_ERR_ECP_INVALID_KEY\<close>, not \<open>MBEDTLS_ERR_PLATFORM_FEATURE_UNSUPPORTED\<close>.
\<close>

theorem check_pubkey_engine_fault_counterexample:
  "ecp_get_type grp_secp256r1 = ECP_TYPE_SHORT_WEIERSTRASS \<and>
   eccp_curve_get grp_secp256r1 = Some secp256r1 \<and>
   fst (pke_eccp_point_verify (engine_answering PKE_ENGINE_FAULT) (hw world0) secp256r1
          (snd (mbedtls_mpi_write_binary_le (pt_X pt_example)
                  (stack_array (engine_answering PKE_ENGINE_FAULT) 0 8) 32))
          (snd (mbedtls_mpi_write_binary_le (pt_Y pt_example)
                  (stack_array (engine_answering PKE_ENGINE_FAULT) 1 8) 32))) = PKE_ENGINE_FAULT \<and>
   fst (ecp_alt_b91_backend_check_pubkey (engine_answering PKE_ENGINE_FAULT) world0
          (Some grp_secp256r1) (Some pt_example)) = MBEDTLS_ERR_ECP_INVALID_KEY \<and>
   fst (ecp_alt_b91_backend_check_pubkey (engine_answering PKE_ENGINE_FAULT) world0
          (Some grp_secp256r1) (Some pt_example)) \<noteq> MBEDTLS_ERR_PLATFORM_FEATURE_UNSUPPORTED"
proof -
  have a: "ecp_get_type grp_secp256r1 = ECP_TYPE_SHORT_WEIERSTRASS"
    and b: "eccp_curve_get grp_secp256r1 = Some secp256r1"
    by (simp_all add: example_group_facts)
  have c: "GET_WORD_LEN (grp_pbits grp_secp256r1) \<le> PKE_OPERAND_MAX_WORD_LEN (engine_answering PKE_ENGINE_FAULT)"
    by (simp add: example_group_facts)
  have v: "pke_eccp_point_verify (engine_answering PKE_ENGINE_FAULT) (hw world0) secp256r1 x y =
             (PKE_ENGINE_FAULT, Suc (hw world0))" for x y
    by simp
  from check_pubkey_engine [where w = world0 and p = pt_example, OF c a b refl refl v] a b
  show ?thesis by (simp add: example_group_facts)
qed

text \<open>
  Claim C5. Each of the three operations returns \<open>MBEDTLS_ERR_ECP_BAD_INPUT_DATA\<close> when a
  pointer argument is null; with all arguments present it returns
  \<open>MBEDTLS_ERR_PLATFORM_FEATURE_UNSUPPORTED\<close> when the word length of the curve exceeds
  \<open>PKE_OPERAND_MAX_WORD_LEN\<close> or the curve is in no table of its family. In all these cases
  the world is left as it was: the lock is not taken and the engine is not called.
\<close>

theorem preconditions_fail_before_engine:
  "(grp = None \<or> pt = None \<longrightarrow>
      ecp_alt_b91_backend_check_pubkey pf w grp pt = (MBEDTLS_ERR_ECP_BAD_INPUT_DATA, w, None)) \<and>
   (grp = None \<or> R = None \<or> m = None \<or> P = None \<longrightarrow>
      ecp_alt_b91_backend_mul pf w grp R m P = (MBEDTLS_ERR_ECP_BAD_INPUT_DATA, w, R, None)) \<and>
   (grp = None \<or> R = None \<or> m = None \<or> P = None \<or> n = None \<or> Q = None \<longrightarrow>
      ecp_alt_b91_backend_muladd pf w grp R m P n Q = (MBEDTLS_ERR_ECP_BAD_INPUT_DATA, w, R, None)) \<and>
   (PKE_OPERAND_MAX_WORD_LEN pf < GET_WORD_LEN (grp_pbits g) \<or> curve_not_registered g \<longrightarrow>
      fst (ecp_alt_b91_backend_check_pubkey pf w (Some g) (Some p')) =
        MBEDTLS_ERR_PLATFORM_FEATURE_UNSUPPORTED \<and>
      fst (snd (ecp_alt_b91_backend_check_pubkey pf w (Some g) (Some p'))) = w \<and>
      fst (ecp_alt_b91_backend_mul pf w (Some g) (Some R') (Some m') (Some P')) =
        MBEDTLS_ERR_PLATFORM_FEATURE_UNSUPPORTED \<and>
      fst (snd (ecp_alt_b91_backend_mul pf w (Some g) (Some R') (Some m') (Some P'))) = w \<and>
      fst (ecp_alt_b91_backend_muladd pf w (Some g) (Some R') (Some m') (Some P') (Some n') (Some Q')) =
        MBEDTLS_ERR_PLATFORM_FEATURE_UNSUPPORTED \<and>
      fst (snd (ecp_alt_b91_backend_muladd pf w (Some g) (Some R') (Some m') (Some P') (Some n') (Some Q'))) = w)"
proof -
  have unsupported:
    "fst (ecp_alt_b91_backend_check_pubkey pf w (Some g) (Some p')) =
        MBEDTLS_ERR_PLATFORM_FEATURE_UNSUPPORTED \<and>
      fst (snd (ecp_alt_b91_backend_check_pubkey pf w (Some g) (Some p'))) = w \<and>
      fst (ecp_alt_b91_backend_mul pf w (Some g) (Some R') (Some m') (Some P')) =
        MBEDTLS_ERR_PLATFORM_FEATURE_UNSUPPORTED \<and>
      fst (snd (ecp_alt_b91_backend_mul pf w (Some g) (Some R') (Some m') (Some P'))) = w \<and>
      fst (ecp_alt_b91_backend_muladd pf w (Some g) (Some R') (Some m') (Some P') (Some n') (Some Q')) =
        MBEDTLS_ERR_PLATFORM_FEATURE_UNSUPPORTED \<and>
      fst (snd (ecp_alt_b91_backend_muladd pf w (Some g) (Some R') (Some m') (Some P') (Some n') (Some Q'))) = w"
    if "PKE_OPERAND_MAX_WORD_LEN pf < GET_WORD_LEN (grp_pbits g) \<or> curve_not_registered g"
  proof (cases "PKE_OPERAND_MAX_WORD_LEN pf < GET_WORD_LEN (grp_pbits g)")
    case True
    then show ?thesis
      by (simp add: check_pubkey_too_wide mul_too_wide muladd_too_wide)
  next
    case False
    then have le: "GET_WORD_LEN (grp_pbits g) \<le> PKE_OPERAND_MAX_WORD_LEN pf" by simp
    from False that have nr: "curve_not_registered g" by simp
    have sw: "ecp_get_type g \<noteq> ECP_TYPE_SHORT_WEIERSTRASS \<or> eccp_curve_get g = None"
      using nr by (auto simp: curve_not_registered_def split: ecp_curve_type.splits)
    have m1: "ecp_get_type g = ECP_TYPE_SHORT_WEIERSTRASS \<longrightarrow> eccp_curve_get g = None"
      and m2: "ecp_get_type g = ECP_TYPE_MONTGOMERY \<longrightarrow> mont_curve_get g = None"
      using nr by (auto simp: curve_not_registered_def split: ecp_curve_type.splits)
    show ?thesis
      by (simp add: check_pubkey_no_curve [OF le sw] mul_no_curve [OF le m1 m2]
            muladd_no_curve [OF le sw])
  qed
  show ?thesis
    using unsupported by (simp add: check_pubkey_null mul_null muladd_null)
qed

text \<open>
  Null arguments to each operation, and the group of secp384r1: twelve words, and in no
  table.
\<close>

theorem preconditions_fail_before_engine_witness:
  "ecp_alt_b91_backend_check_pubkey (engine_answering PKE_SUCCESS) world0 (Some grp_secp256r1) None =
     (MBEDTLS_ERR_ECP_BAD_INPUT_DATA, world0, None) \<and>
   ecp_alt_b91_backend_mul (engine_answering PKE_SUCCESS) world0 (Some grp_secp256r1) None
       (Some mpi_example) (Some pt_example) =
     (MBEDTLS_ERR_ECP_BAD_INPUT_DATA, world0, None, None) \<and>
   ecp_alt_b91_backend_muladd (engine_answering PKE_SUCCESS) world0 None (Some pt_example)
       (Some mpi_example) (Some pt_example) (Some mpi_example) (Some pt_example) =
     (MBEDTLS_ERR_ECP_BAD_INPUT_DATA, world0, Some pt_example, None) \<and>
   PKE_OPERAND_MAX_WORD_LEN (engine_answering PKE_SUCCESS) < GET_WORD_LEN (grp_pbits grp_secp384r1) \<and>
   curve_not_registered grp_secp384r1 \<and>
   fst (ecp_alt_b91_backend_check_pubkey (engine_answering PKE_SUCCESS) world0
          (Some grp_secp384r1) (Some pt_example)) = MBEDTLS_ERR_PLATFORM_FEATURE_UNSUPPORTED \<and>
   fst (snd (ecp_alt_b91_backend_mul (engine_answering PKE_SUCCESS) world0
          (Some grp_secp384r1) (Some pt_example) (Some mpi_example) (Some pt_example))) = world0 \<and>
   fst (ecp_alt_b91_backend_muladd (engine_answering PKE_SUCCESS) world0
          (Some grp_secp384r1) (Some pt_example) (Some mpi_example) (Some pt_example)
          (Some mpi_example) (Some pt_example)) = MBEDTLS_ERR_PLATFORM_FEATURE_UNSUPPORTED"
proof -
  have wide: "PKE_OPERAND_MAX_WORD_LEN (engine_answering PKE_SUCCESS) < GET_WORD_LEN (grp_pbits grp_secp384r1)"
    by (simp add: example_group_facts)
  have nr: "curve_not_registered grp_secp384r1"
    by (simp add: curve_not_registered_def example_group_facts)
  from preconditions_fail_before_engine
         [of "Some grp_secp256r1" None "engine_answering PKE_SUCCESS" world0 None "Some mpi_example"
             "Some pt_example" "Some mpi_example" "Some pt_example" grp_secp384r1 pt_example
             pt_example mpi_example pt_example mpi_example pt_example]
       preconditions_fail_before_engine
         [of None "Some pt_example" "engine_answering PKE_SUCCESS" world0 "Some pt_example" "Some mpi_example"
             "Some pt_example" "Some mpi_example" "Some pt_example" grp_secp384r1 pt_example
             pt_example mpi_example pt_example mpi_example pt_example]
       wide nr
  show ?thesis by simp
qed

text \<open>
  Claim C7. For a group classified as Montgomery (its generator has an X and no Y),
  \<open>ecp_alt_b91_backend_check_pubkey\<close> and \<open>ecp_alt_b91_backend_muladd\<close>, called with all
  arguments present, return \<open>MBEDTLS_ERR_PLATFORM_FEATURE_UNSUPPORTED\<close>.
\<close>

theorem montgomery_unsupported:
  assumes "ecp_get_type g = ECP_TYPE_MONTGOMERY"
  shows "fst (ecp_alt_b91_backend_check_pubkey pf w (Some g) (Some p)) =
           MBEDTLS_ERR_PLATFORM_FEATURE_UNSUPPORTED \<and>
         fst (ecp_alt_b91_backend_muladd pf w (Some g) (Some R) (Some m) (Some P) (Some n) (Some Q)) =
           MBEDTLS_ERR_PLATFORM_FEATURE_UNSUPPORTED"
proof (cases "PKE_OPERAND_MAX_WORD_LEN pf < GET_WORD_LEN (grp_pbits g)")
  case True
  then show ?thesis by (simp add: check_pubkey_too_wide muladd_too_wide)
next
  case False
  then have le: "GET_WORD_LEN (grp_pbits g) \<le> PKE_OPERAND_MAX_WORD_LEN pf" by simp
  have sw: "ecp_get_type g \<noteq> ECP_TYPE_SHORT_WEIERSTRASS \<or> eccp_curve_get g = None"
    using assms by simp
  show ?thesis
    by (simp add: check_pubkey_no_curve [OF le sw] muladd_no_curve [OF le sw])
qed

text \<open>The group of Curve25519.\<close>

theorem montgomery_unsupported_witness:
  "ecp_get_type grp_curve25519 = ECP_TYPE_MONTGOMERY \<and>
   fst (ecp_alt_b91_backend_check_pubkey (engine_answering PKE_SUCCESS) world0
          (Some grp_curve25519) (Some pt_example)) = MBEDTLS_ERR_PLATFORM_FEATURE_UNSUPPORTED \<and>
   fst (ecp_alt_b91_backend_muladd (engine_answering PKE_SUCCESS) world0
          (Some grp_curve25519) (Some pt_example) (Some mpi_example) (Some pt_example)
          (Some mpi_example) (Some pt_example)) = MBEDTLS_ERR_PLATFORM_FEATURE_UNSUPPORTED"
proof -
  have a: "ecp_get_type grp_curve25519 = ECP_TYPE_MONTGOMERY" by (simp add: example_group_facts)
  from montgomery_unsupported [OF a] a show ?thesis by blast
qed

text \<open>
  Claim C6, as the code has it. In \<open>ecp_alt_b91_backend_muladd\<close> on a registered
  short-Weierstrass curve, with \<open>rc1\<close>, \<open>rc2\<close> and \<open>rc3\<close> the answers of the engine to the
  multiplication by \<open>m\<close>, the multiplication by \<open>n\<close> and the addition: the operation
  returns 0 when all three are \<open>PKE_SUCCESS\<close> and \<open>MBEDTLS_ERR_PLATFORM_HW_ACCEL_FAILED\<close>
  otherwise; after a failed call no further call is made; when a call has failed \<open>R\<close> is
  as it was. When all three have succeeded it decodes the buffers the addition has
  written into \<open>R.X\<close> and \<open>R.Y\<close> and sets \<open>R.Z\<close> to 1, discarding the codes of these three
  stores: \<open>R.X\<close> and \<open>R.Y\<close> hold the values of the buffers and \<open>R.Z\<close> is 1 whenever the
  library can provide the limbs.
\<close>

theorem muladd_all_or_nothing:
  assumes "GET_WORD_LEN (grp_pbits g) \<le> PKE_OPERAND_MAX_WORD_LEN pf"
    and "ecp_get_type g = ECP_TYPE_SHORT_WEIERSTRASS"
    and "eccp_curve_get g = Some c"
    and "sz = GET_WORD_LEN (grp_pbits g) * 4"
    and "x1 = snd (mbedtls_mpi_write_binary_le (pt_X P) (stack_array pf 1 (GET_WORD_LEN (grp_pbits g))) sz)"
    and "y1 = snd (mbedtls_mpi_write_binary_le (pt_Y P) (stack_array pf 2 (GET_WORD_LEN (grp_pbits g))) sz)"
    and "x2 = snd (mbedtls_mpi_write_binary_le (pt_X Q) (stack_array pf 3 (GET_WORD_LEN (grp_pbits g))) sz)"
    and "y2 = snd (mbedtls_mpi_write_binary_le (pt_Y Q) (stack_array pf 4 (GET_WORD_LEN (grp_pbits g))) sz)"
    and "ms1 = snd (mbedtls_mpi_write_binary_le m (stack_array pf 0 (GET_WORD_LEN (grp_pbits g))) sz)"
    and "pke_eccp_point_mul pf (hw w) c ms1 x1 y1 = (rc1, ox1, oy1, h1)"
    and "ms2 = snd (mbedtls_mpi_write_binary_le n ms1 sz)"
    and "pke_eccp_point_mul pf h1 c ms2 x2 y2 = (rc2, ox2, oy2, h2)"
    and "pke_eccp_point_add pf h2 c (engine_store x1 ox1) (engine_store y1 oy1)
           (engine_store x2 ox2) (engine_store y2 oy2) = (rc3, ox3, oy3, h3)"
    and "res = ecp_alt_b91_backend_muladd pf w (Some g) (Some R) (Some m) (Some P) (Some n) (Some Q)"
  shows "fst res = (if rc1 = PKE_SUCCESS \<and> rc2 = PKE_SUCCESS \<and> rc3 = PKE_SUCCESS
                    then RET_OK else MBEDTLS_ERR_PLATFORM_HW_ACCEL_FAILED) \<and>
         trace (fst (snd res)) =
           trace w @ [EV_lock, EV_eccp_point_mul c ms1 x1 y1] @
             (if rc1 = PKE_SUCCESS
              then [EV_eccp_point_mul c ms2 x2 y2] @
                   (if rc2 = PKE_SUCCESS
                    then [EV_eccp_point_add c (engine_store x1 ox1) (engine_store y1 oy1)
                            (engine_store x2 ox2) (engine_store y2 oy2)]
                    else [])
              else []) @ [EV_unlock] \<and>
         (\<not> (rc1 = PKE_SUCCESS \<and> rc2 = PKE_SUCCESS \<and> rc3 = PKE_SUCCESS) \<longrightarrow>
            fst (snd (snd res)) = Some R) \<and>
         (rc1 = PKE_SUCCESS \<and> rc2 = PKE_SUCCESS \<and> rc3 = PKE_SUCCESS \<longrightarrow>
            fst (snd (snd res)) =
              Some (R\<lparr>pt_X := snd (mbedtls_mpi_read_binary_le (alloc_ok pf) (pt_X R)
                                    (engine_store (engine_store x1 ox1) ox3) sz),
                      pt_Y := snd (mbedtls_mpi_read_binary_le (alloc_ok pf) (pt_Y R)
                                    (engine_store (engine_store y1 oy1) oy3) sz),
                      pt_Z := snd (mbedtls_mpi_lset (alloc_ok pf) (pt_Z R) 1)\<rparr>)) \<and>
         (rc1 = PKE_SUCCESS \<and> rc2 = PKE_SUCCESS \<and> rc3 = PKE_SUCCESS \<and>
          alloc_ok pf 1 \<and> alloc_ok pf (max 1 (CHARS_TO_LIMBS sz)) \<longrightarrow>
            (\<exists>R'. fst (snd (snd res)) = Some R' \<and>
               mpi_value (pt_X R') = int (le_val_bytes (engine_store (engine_store x1 ox1) ox3)) \<and>
               mpi_value (pt_Y R') = int (le_val_bytes (engine_store (engine_store y1 oy1) oy3)) \<and>
               mpi_value (pt_Z R') = 1))"
proof -
  note eq = muladd_engine [OF assms(1-13), of R]
  have lx: "sz \<le> length (engine_store (engine_store x1 ox1) ox3)"
    and ly: "sz \<le> length (engine_store (engine_store y1 oy1) oy3)"
    and lx': "length (engine_store (engine_store x1 ox1) ox3) = sz"
    and ly': "length (engine_store (engine_store y1 oy1) oy3) = sz"
    using assms(4,5,6) by simp_all
  have vx: "mpi_value (snd (mbedtls_mpi_read_binary_le (alloc_ok pf) X
              (engine_store (engine_store x1 ox1) ox3) sz)) =
            int (le_val_bytes (engine_store (engine_store x1 ox1) ox3))"
    if "alloc_ok pf (max 1 (CHARS_TO_LIMBS sz))" for X
    using read_binary_le_value [where alloc = "alloc_ok pf" and buflen = sz and X = X
            and buf = "engine_store (engine_store x1 ox1) ox3"] that lx lx'
    by simp
  have vy: "mpi_value (snd (mbedtls_mpi_read_binary_le (alloc_ok pf) X
              (engine_store (engine_store y1 oy1) oy3) sz)) =
            int (le_val_bytes (engine_store (engine_store y1 oy1) oy3))"
    if "alloc_ok pf (max 1 (CHARS_TO_LIMBS sz))" for X
    using read_binary_le_value [where alloc = "alloc_ok pf" and buflen = sz and X = X
            and buf = "engine_store (engine_store y1 oy1) oy3"] that ly ly'
    by simp
  have vz: "mpi_value (snd (mbedtls_mpi_lset (alloc_ok pf) Z 1)) = 1" if "alloc_ok pf 1" for Z
    using that by (rule lset_one_value [where alloc = "alloc_ok pf"])
  show ?thesis
    unfolding assms(14) eq by (simp add: vx vy vz)
qed

text \<open>
  On secp256r1, into a freshly initialised \<open>R\<close>: an engine that succeeds (the two
  multiplications and the addition, \<open>R\<close> written) and an engine that fails the first
  call (one call, \<open>R\<close> untouched).
\<close>

theorem muladd_all_or_nothing_witness:
  "GET_WORD_LEN (grp_pbits grp_secp256r1) \<le> PKE_OPERAND_MAX_WORD_LEN (engine_answering PKE_SUCCESS) \<and>
   ecp_get_type grp_secp256r1 = ECP_TYPE_SHORT_WEIERSTRASS \<and>
   eccp_curve_get grp_secp256r1 = Some secp256r1 \<and>
   alloc_ok (engine_answering PKE_SUCCESS) 1 \<and>
   alloc_ok (engine_answering PKE_SUCCESS) (max 1 (CHARS_TO_LIMBS 32)) \<and>
   fst (ecp_alt_b91_backend_muladd (engine_answering PKE_SUCCESS) world0 (Some grp_secp256r1)
          (Some pt_init) (Some mpi_example) (Some pt_example) (Some mpi_example) (Some pt_example)) = RET_OK \<and>
   trace (fst (snd (ecp_alt_b91_backend_muladd (engine_answering PKE_SUCCESS) world0
          (Some grp_secp256r1) (Some pt_init) (Some mpi_example) (Some pt_example)
          (Some mpi_example) (Some pt_example)))) =
     [EV_lock,
      EV_eccp_point_mul secp256r1 enc_example enc_example enc_example,
      EV_eccp_point_mul secp256r1
        (snd (mbedtls_mpi_write_binary_le mpi_example enc_example 32)) enc_example enc_example,
      EV_eccp_point_add secp256r1 enc_example enc_example enc_example enc_example,
      EV_unlock] \<and>
   (\<exists>R'. fst (snd (snd (ecp_alt_b91_backend_muladd (engine_answering PKE_SUCCESS) world0
          (Some grp_secp256r1) (Some pt_init) (Some mpi_example) (Some pt_example)
          (Some mpi_example) (Some pt_example)))) = Some R' \<and>
      mpi_value (pt_X R') = int (le_val_bytes enc_example) \<and>
      mpi_value (pt_Y R') = int (le_val_bytes enc_example) \<and>
      mpi_value (pt_Z R') = 1) \<and>
   fst (ecp_alt_b91_backend_muladd (engine_answering PKE_ENGINE_FAULT) world0 (Some grp_secp256r1)
          (Some pt_init) (Some mpi_example) (Some pt_example) (Some mpi_example) (Some pt_example)) =
     MBEDTLS_ERR_PLATFORM_HW_ACCEL_FAILED \<and>
   trace (fst (snd (ecp_alt_b91_backend_muladd (engine_answering PKE_ENGINE_FAULT) world0
          (Some grp_secp256r1) (Some pt_init) (Some mpi_example) (Some pt_example)
          (Some mpi_example) (Some pt_example)))) =
     [EV_lock, EV_eccp_point_mul secp256r1 enc_example enc_example enc_example, EV_unlock] \<and>
   fst (snd (snd (ecp_alt_b91_backend_muladd (engine_answering PKE_ENGINE_FAULT) world0
          (Some grp_secp256r1) (Some pt_init) (Some mpi_example) (Some pt_example)
          (Some mpi_example) (Some pt_example)))) = Some pt_init"
proof -
  have a: "GET_WORD_LEN (grp_pbits grp_secp256r1) \<le> PKE_OPERAND_MAX_WORD_LEN (engine_answering rc)" for rc
    by (simp add: example_group_facts)
  have b: "ecp_get_type grp_secp256r1 = ECP_TYPE_SHORT_WEIERSTRASS"
    and c: "eccp_curve_get grp_secp256r1 = Some secp256r1"
    by (simp_all add: example_group_facts)
  have e1: "pke_eccp_point_mul (engine_answering rc) h secp256r1 k x y = (rc, x, y, Suc h)" for rc h k x y
    by simp
  have e3: "pke_eccp_point_add (engine_answering rc) h secp256r1 x y x' y' = (rc, x, y, Suc h)" for rc h x y x' y'
    by simp
  note t = muladd_all_or_nothing [where w = world0 and g = grp_secp256r1 and c = secp256r1
             and R = pt_init and m = mpi_example and P = pt_example and n = mpi_example
             and Q = pt_example, OF a b c refl refl refl refl refl refl e1 refl e1 e3 refl]
  from t [of PKE_SUCCESS] t [of PKE_ENGINE_FAULT] a [of PKE_SUCCESS] b c
  show ?thesis
    by (auto simp: world0_def example_group_facts stack_array_engine_answering pt_example_def
          enc_example_def [symmetric])
qed

text \<open>
  All three calls succeed and the library can provide no limbs: the operation returns 0,
  and \<open>R\<close> is the freshly initialised point it was, its \<open>Z\<close> of value 0 and not 1, its \<open>X\<close>
  of value 0 and not the value of the buffer.
\<close>

theorem muladd_out_of_memory_counterexample:
  "fst (ecp_alt_b91_backend_muladd engine_out_of_memory world0 (Some grp_secp256r1)
          (Some pt_init) (Some mpi_example) (Some pt_example) (Some mpi_example) (Some pt_example)) = RET_OK \<and>
   trace (fst (snd (ecp_alt_b91_backend_muladd engine_out_of_memory world0 (Some grp_secp256r1)
          (Some pt_init) (Some mpi_example) (Some pt_example) (Some mpi_example) (Some pt_example)))) =
     [EV_lock,
      EV_eccp_point_mul secp256r1 enc_example enc_example enc_example,
      EV_eccp_point_mul secp256r1
        (snd (mbedtls_mpi_write_binary_le mpi_example enc_example 32)) enc_example enc_example,
      EV_eccp_point_add secp256r1 enc_example enc_example enc_example enc_example,
      EV_unlock] \<and>
   fst (snd (snd (ecp_alt_b91_backend_muladd engine_out_of_memory world0 (Some grp_secp256r1)
          (Some pt_init) (Some mpi_example) (Some pt_example) (Some mpi_example) (Some pt_example)))) =
     Some pt_init \<and>
   mpi_value (pt_Z pt_init) = 0 \<and>
   mpi_value (pt_X pt_init) = 0 \<and>
   le_val_bytes enc_example = 21542142465"
proof -
  have a: "GET_WORD_LEN (grp_pbits grp_secp256r1) \<le> PKE_OPERAND_MAX_WORD_LEN engine_out_of_memory"
    by (simp add: example_group_facts)
  have b: "ecp_get_type grp_secp256r1 = ECP_TYPE_SHORT_WEIERSTRASS"
    and c: "eccp_curve_get grp_secp256r1 = Some secp256r1"
    by (simp_all add: example_group_facts)
  have e1: "pke_eccp_point_mul engine_out_of_memory h secp256r1 k x y = (PKE_SUCCESS, x, y, Suc h)" for h k x y
    by simp
  have e3: "pke_eccp_point_add engine_out_of_memory h secp256r1 x y x' y' = (PKE_SUCCESS, x, y, Suc h)"
    for h x y x' y'
    by simp
  have al: "alloc_ok engine_out_of_memory = (\<lambda>k. False)"
    by (simp add: engine_out_of_memory_def)
  note eq = muladd_engine [where w = world0 and g = grp_secp256r1 and c = secp256r1
             and R = pt_init and m = mpi_example and P = pt_example and n = mpi_example
             and Q = pt_example, OF a b c refl refl refl refl refl refl e1 refl e1 e3]
  have wf: "mpi_wf mpi_example" by (simp add: mpi_wf_def mpi_example_def limbs_of_def)
  have z: "\<forall>i. 32 \<le> i \<and> i < mpi_n mpi_example * ciL \<longrightarrow> GET_BYTE mpi_example i = 0"
    by (auto simp: mpi_example_def ciL_def)
  have len: "length enc_example = 32" by (simp add: enc_example_def)
  have "le_val_bytes (take 32 enc_example) = limbs_val (limbs_of mpi_example)"
    unfolding enc_example_def
    by (rule write_binary_le_value [OF wf _ z]) simp
  then have v: "le_val_bytes enc_example = 21542142465"
    using len by (simp add: mpi_example_def limbs_of_def)
  have v0: "mpi_value mpi_empty = 0"
    by (simp add: mpi_value_def mpi_empty_def limbs_of_def)
  show ?thesis
    unfolding eq
    by (simp add: world0_def example_group_facts pt_example_def enc_example_def [symmetric]
          al read_binary_le_no_memory lset_no_memory pt_init_def v0 v)
qed

text \<open>
  Claim C8. In each of the three operations, once the word-length check has passed and
  the local word arrays exist, every array is all zero when the function returns,
  whatever path it took: success, engine failure, a curve type it does not handle, or a
  curve it does not find.
\<close>

theorem scratch_buffers_zeroed:
  assumes "GET_WORD_LEN (grp_pbits g) \<le> PKE_OPERAND_MAX_WORD_LEN pf"
  shows "snd (snd (ecp_alt_b91_backend_check_pubkey pf w (Some g) (Some p))) =
           Some (replicate 2 (replicate (GET_WORD_LEN (grp_pbits g) * 4) 0)) \<and>
         snd (snd (snd (ecp_alt_b91_backend_mul pf w (Some g) (Some R) (Some m) (Some P)))) =
           Some (replicate 3 (replicate (GET_WORD_LEN (grp_pbits g) * 4) 0)) \<and>
         snd (snd (snd (ecp_alt_b91_backend_muladd pf w (Some g) (Some R) (Some m) (Some P) (Some n) (Some Q)))) =
           Some (replicate 5 (replicate (GET_WORD_LEN (grp_pbits g) * 4) 0))"
proof (intro conjI)
  show "snd (snd (ecp_alt_b91_backend_check_pubkey pf w (Some g) (Some p))) =
           Some (replicate 2 (replicate (GET_WORD_LEN (grp_pbits g) * 4) 0))"
  proof (cases "ecp_get_type g \<noteq> ECP_TYPE_SHORT_WEIERSTRASS \<or> eccp_curve_get g = None")
    case True
    from check_pubkey_no_curve [OF assms True] show ?thesis by simp
  next
    case False
    then obtain c where sw: "ecp_get_type g = ECP_TYPE_SHORT_WEIERSTRASS"
      and c: "eccp_curve_get g = Some c" by auto
    from check_pubkey_engine [OF assms sw c refl refl surjective_pairing]
    show ?thesis by simp
  qed
next
  show "snd (snd (snd (ecp_alt_b91_backend_mul pf w (Some g) (Some R) (Some m) (Some P)))) =
           Some (replicate 3 (replicate (GET_WORD_LEN (grp_pbits g) * 4) 0))"
  proof (cases "ecp_get_type g = ECP_TYPE_SHORT_WEIERSTRASS \<and> eccp_curve_get g \<noteq> None")
    case True
    then obtain c where sw: "ecp_get_type g = ECP_TYPE_SHORT_WEIERSTRASS"
      and c: "eccp_curve_get g = Some c" by auto
    from mul_weierstrass_engine [OF assms sw c refl refl refl refl quad_collapse]
    show ?thesis by simp
  next
    case nsw: False
    show ?thesis
    proof (cases "ecp_get_type g = ECP_TYPE_MONTGOMERY \<and> mont_curve_get g \<noteq> None")
      case True
      then obtain c where mt: "ecp_get_type g = ECP_TYPE_MONTGOMERY"
        and c: "mont_curve_get g = Some c" by auto
      from mul_montgomery_engine [OF assms mt c refl refl refl triple_collapse]
      show ?thesis by simp
    next
      case False
      with nsw have m1: "ecp_get_type g = ECP_TYPE_SHORT_WEIERSTRASS \<longrightarrow> eccp_curve_get g = None"
        and m2: "ecp_get_type g = ECP_TYPE_MONTGOMERY \<longrightarrow> mont_curve_get g = None"
        by auto
      from mul_no_curve [OF assms m1 m2] show ?thesis by simp
    qed
  qed
next
  show "snd (snd (snd (ecp_alt_b91_backend_muladd pf w (Some g) (Some R) (Some m) (Some P) (Some n) (Some Q)))) =
           Some (replicate 5 (replicate (GET_WORD_LEN (grp_pbits g) * 4) 0))"
  proof (cases "ecp_get_type g \<noteq> ECP_TYPE_SHORT_WEIERSTRASS \<or> eccp_curve_get g = None")
    case True
    from muladd_no_curve [OF assms True] show ?thesis by simp
  next
    case False
    then obtain c where sw: "ecp_get_type g = ECP_TYPE_SHORT_WEIERSTRASS"
      and c: "eccp_curve_get g = Some c" by auto
    from muladd_engine [OF assms sw c refl refl refl refl refl refl quad_collapse refl quad_collapse quad_collapse]
    show ?thesis by simp
  qed
qed

text \<open>On secp256r1 with an engine that fails: arrays of 32 zero bytes.\<close>

theorem scratch_buffers_zeroed_witness:
  "GET_WORD_LEN (grp_pbits grp_secp256r1) \<le> PKE_OPERAND_MAX_WORD_LEN (engine_answering PKE_ENGINE_FAULT) \<and>
   snd (snd (ecp_alt_b91_backend_check_pubkey (engine_answering PKE_ENGINE_FAULT) world0
          (Some grp_secp256r1) (Some pt_example))) =
     Some [replicate 32 0, replicate 32 0] \<and>
   snd (snd (snd (ecp_alt_b91_backend_mul (engine_answering PKE_ENGINE_FAULT) world0
          (Some grp_secp256r1) (Some pt_example) (Some mpi_example) (Some pt_example)))) =
     Some [replicate 32 0, replicate 32 0, replicate 32 0] \<and>
   snd (snd (snd (ecp_alt_b91_backend_muladd (engine_answering PKE_ENGINE_FAULT) world0
          (Some grp_secp256r1) (Some pt_example) (Some mpi_example) (Some pt_example)
          (Some mpi_example) (Some pt_example)))) =
     Some [replicate 32 0, replicate 32 0, replicate 32 0, replicate 32 0, replicate 32 0]"
proof -
  have a: "GET_WORD_LEN (grp_pbits grp_secp256r1) \<le> PKE_OPERAND_MAX_WORD_LEN (engine_answering PKE_ENGINE_FAULT)"
    by (simp add: example_group_facts)
  have r2: "replicate 2 x = [x, x]" and r3: "replicate 3 x = [x, x, x]"
    and r5: "replicate 5 x = [x, x, x, x, x]" for x :: "byte list"
    by (simp_all add: eval_nat_numeral)
  from scratch_buffers_zeroed [OF a, of world0 pt_example pt_example mpi_example pt_example
         mpi_example pt_example] a
  show ?thesis by (simp only: example_group_facts r2 r3 r5) simp
qed

text \<open>
  Claim C9. With the operands and the answers of the three engine calls named as the
  code computes them: a call of \<open>ecp_alt_b91_backend_muladd\<close> that stops at a null
  argument, at the word length, at the curve type or at the lookup leaves the world as
  it was, the lock untaken. Otherwise the world it leaves is the one it found with
  the hardware as the last engine call made left it and with these events added, in
  this order: the lock, the multiplication by \<open>m\<close> on the buffers of \<open>P\<close>, then (each only
  when the call before it has succeeded) the multiplication by \<open>n\<close> on the buffers of \<open>Q\<close>
  and the addition of the two products, and the unlock last. The lock is thus taken once,
  before the first call, and released once, after the last; when the operation returns 0
  the two multiplications and the addition have all been made between them.
\<close>

theorem muladd_one_locked_section:
  assumes "sz = GET_WORD_LEN (grp_pbits g) * 4"
    and "x1 = snd (mbedtls_mpi_write_binary_le (pt_X P) (stack_array pf 1 (GET_WORD_LEN (grp_pbits g))) sz)"
    and "y1 = snd (mbedtls_mpi_write_binary_le (pt_Y P) (stack_array pf 2 (GET_WORD_LEN (grp_pbits g))) sz)"
    and "x2 = snd (mbedtls_mpi_write_binary_le (pt_X Q) (stack_array pf 3 (GET_WORD_LEN (grp_pbits g))) sz)"
    and "y2 = snd (mbedtls_mpi_write_binary_le (pt_Y Q) (stack_array pf 4 (GET_WORD_LEN (grp_pbits g))) sz)"
    and "ms1 = snd (mbedtls_mpi_write_binary_le m (stack_array pf 0 (GET_WORD_LEN (grp_pbits g))) sz)"
    and "pke_eccp_point_mul pf (hw w) c ms1 x1 y1 = (rc1, ox1, oy1, h1)"
    and "ms2 = snd (mbedtls_mpi_write_binary_le n ms1 sz)"
    and "pke_eccp_point_mul pf h1 c ms2 x2 y2 = (rc2, ox2, oy2, h2)"
    and "pke_eccp_point_add pf h2 c (engine_store x1 ox1) (engine_store y1 oy1)
           (engine_store x2 ox2) (engine_store y2 oy2) = (rc3, ox3, oy3, h3)"
    and "res = ecp_alt_b91_backend_muladd pf w (Some g) (Some R) (Some m) (Some P) (Some n) (Some Q)"
  shows
    "(grp' = None \<or> R' = None \<or> m' = None \<or> P' = None \<or> n' = None \<or> Q' = None \<longrightarrow>
        fst (snd (ecp_alt_b91_backend_muladd pf w grp' R' m' P' n' Q')) = w) \<and>
     (PKE_OPERAND_MAX_WORD_LEN pf < GET_WORD_LEN (grp_pbits g) \<or>
      ecp_get_type g \<noteq> ECP_TYPE_SHORT_WEIERSTRASS \<or> eccp_curve_get g = None \<longrightarrow>
        fst (snd res) = w) \<and>
     (GET_WORD_LEN (grp_pbits g) \<le> PKE_OPERAND_MAX_WORD_LEN pf \<and>
      ecp_get_type g = ECP_TYPE_SHORT_WEIERSTRASS \<and> eccp_curve_get g = Some c \<longrightarrow>
        fst res = (if rc1 = PKE_SUCCESS \<and> rc2 = PKE_SUCCESS \<and> rc3 = PKE_SUCCESS
                   then RET_OK else MBEDTLS_ERR_PLATFORM_HW_ACCEL_FAILED) \<and>
        fst (snd res) =
          w\<lparr>hw := (if rc1 \<noteq> PKE_SUCCESS then h1 else if rc2 \<noteq> PKE_SUCCESS then h2 else h3),
            trace := trace w @ [EV_lock, EV_eccp_point_mul c ms1 x1 y1] @
              (if rc1 = PKE_SUCCESS
               then [EV_eccp_point_mul c ms2 x2 y2] @
                    (if rc2 = PKE_SUCCESS
                     then [EV_eccp_point_add c (engine_store x1 ox1) (engine_store y1 oy1)
                             (engine_store x2 ox2) (engine_store y2 oy2)]
                     else [])
               else []) @ [EV_unlock]\<rparr> \<and>
        locked_section (drop (length (trace w)) (trace (fst (snd res)))) \<and>
        (fst res = RET_OK \<longrightarrow>
           hw (fst (snd res)) = h3 \<and>
           trace (fst (snd res)) =
             trace w @
               [EV_lock,
                EV_eccp_point_mul c ms1 x1 y1,
                EV_eccp_point_mul c ms2 x2 y2,
                EV_eccp_point_add c (engine_store x1 ox1) (engine_store y1 oy1)
                  (engine_store x2 ox2) (engine_store y2 oy2),
                EV_unlock]))"
proof (intro conjI impI)
  assume "grp' = None \<or> R' = None \<or> m' = None \<or> P' = None \<or> n' = None \<or> Q' = None"
  then show "fst (snd (ecp_alt_b91_backend_muladd pf w grp' R' m' P' n' Q')) = w"
    by (simp add: muladd_null)
next
  assume off: "PKE_OPERAND_MAX_WORD_LEN pf < GET_WORD_LEN (grp_pbits g) \<or>
      ecp_get_type g \<noteq> ECP_TYPE_SHORT_WEIERSTRASS \<or> eccp_curve_get g = None"
  show "fst (snd res) = w"
  proof (cases "PKE_OPERAND_MAX_WORD_LEN pf < GET_WORD_LEN (grp_pbits g)")
    case True
    then show ?thesis unfolding assms(11) by (simp add: muladd_too_wide)
  next
    case False
    then have le: "GET_WORD_LEN (grp_pbits g) \<le> PKE_OPERAND_MAX_WORD_LEN pf" by simp
    from False off have nc: "ecp_get_type g \<noteq> ECP_TYPE_SHORT_WEIERSTRASS \<or> eccp_curve_get g = None"
      by simp
    show ?thesis unfolding assms(11) by (simp add: muladd_no_curve [OF le nc])
  qed
next
  assume on: "GET_WORD_LEN (grp_pbits g) \<le> PKE_OPERAND_MAX_WORD_LEN pf \<and>
      ecp_get_type g = ECP_TYPE_SHORT_WEIERSTRASS \<and> eccp_curve_get g = Some c"
  then have le: "GET_WORD_LEN (grp_pbits g) \<le> PKE_OPERAND_MAX_WORD_LEN pf"
    and sw: "ecp_get_type g = ECP_TYPE_SHORT_WEIERSTRASS" and c: "eccp_curve_get g = Some c"
    by simp_all
  note eq = muladd_engine [OF le sw c assms(1-10), of R]
  show "fst res = (if rc1 = PKE_SUCCESS \<and> rc2 = PKE_SUCCESS \<and> rc3 = PKE_SUCCESS
                   then RET_OK else MBEDTLS_ERR_PLATFORM_HW_ACCEL_FAILED)"
    unfolding assms(11) eq by simp
  show "fst (snd res) =
          w\<lparr>hw := (if rc1 \<noteq> PKE_SUCCESS then h1 else if rc2 \<noteq> PKE_SUCCESS then h2 else h3),
            trace := trace w @ [EV_lock, EV_eccp_point_mul c ms1 x1 y1] @
              (if rc1 = PKE_SUCCESS
               then [EV_eccp_point_mul c ms2 x2 y2] @
                    (if rc2 = PKE_SUCCESS
                     then [EV_eccp_point_add c (engine_store x1 ox1) (engine_store y1 oy1)
                             (engine_store x2 ox2) (engine_store y2 oy2)]
                     else [])
               else []) @ [EV_unlock]\<rparr>"
    unfolding assms(11) eq by simp
  show "locked_section (drop (length (trace w)) (trace (fst (snd res))))"
    unfolding assms(11) eq by (simp add: locked_section_shapes)
  assume "fst res = RET_OK"
  then have all: "rc1 = PKE_SUCCESS \<and> rc2 = PKE_SUCCESS \<and> rc3 = PKE_SUCCESS"
    unfolding assms(11) eq by (simp split: if_splits)
  show "hw (fst (snd res)) = h3"
    unfolding assms(11) eq using all by simp
  show "trace (fst (snd res)) =
             trace w @
               [EV_lock,
                EV_eccp_point_mul c ms1 x1 y1,
                EV_eccp_point_mul c ms2 x2 y2,
                EV_eccp_point_add c (engine_store x1 ox1) (engine_store y1 oy1)
                  (engine_store x2 ox2) (engine_store y2 oy2),
                EV_unlock]"
    unfolding assms(11) eq using all by simp
qed

text \<open>
  On secp256r1: an engine that succeeds (the world after the two multiplications and the
  addition, three calls counted by the hardware) and one that fails the first call; a
  null \<open>R\<close> and the group of Curve25519, which leave the world as it was.
\<close>

theorem muladd_one_locked_section_witness:
  "GET_WORD_LEN (grp_pbits grp_secp256r1) \<le> PKE_OPERAND_MAX_WORD_LEN (engine_answering PKE_SUCCESS) \<and>
   ecp_get_type grp_secp256r1 = ECP_TYPE_SHORT_WEIERSTRASS \<and>
   eccp_curve_get grp_secp256r1 = Some secp256r1 \<and>
   fst (ecp_alt_b91_backend_muladd (engine_answering PKE_SUCCESS) world0 (Some grp_secp256r1)
          (Some pt_init) (Some mpi_example) (Some pt_example) (Some mpi_example) (Some pt_example)) =
     RET_OK \<and>
   fst (snd (ecp_alt_b91_backend_muladd (engine_answering PKE_SUCCESS) world0 (Some grp_secp256r1)
          (Some pt_init) (Some mpi_example) (Some pt_example) (Some mpi_example) (Some pt_example))) =
     \<lparr>hw = 3,
      trace = [EV_lock,
               EV_eccp_point_mul secp256r1 enc_example enc_example enc_example,
               EV_eccp_point_mul secp256r1
                 (snd (mbedtls_mpi_write_binary_le mpi_example enc_example 32)) enc_example enc_example,
               EV_eccp_point_add secp256r1 enc_example enc_example enc_example enc_example,
               EV_unlock]\<rparr> \<and>
   locked_section (trace (fst (snd (ecp_alt_b91_backend_muladd (engine_answering PKE_SUCCESS) world0
          (Some grp_secp256r1) (Some pt_init) (Some mpi_example) (Some pt_example)
          (Some mpi_example) (Some pt_example))))) \<and>
   fst (snd (ecp_alt_b91_backend_muladd (engine_answering PKE_ENGINE_FAULT) world0 (Some grp_secp256r1)
          (Some pt_init) (Some mpi_example) (Some pt_example) (Some mpi_example) (Some pt_example))) =
     \<lparr>hw = 1,
      trace = [EV_lock,
               EV_eccp_point_mul secp256r1 enc_example enc_example enc_example,
               EV_unlock]\<rparr> \<and>
   fst (snd (ecp_alt_b91_backend_muladd (engine_answering PKE_SUCCESS) world0 (Some grp_secp256r1)
          None (Some mpi_example) (Some pt_example) (Some mpi_example) (Some pt_example))) = world0 \<and>
   ecp_get_type grp_curve25519 \<noteq> ECP_TYPE_SHORT_WEIERSTRASS \<and>
   fst (snd (ecp_alt_b91_backend_muladd (engine_answering PKE_SUCCESS) world0 (Some grp_curve25519)
          (Some pt_init) (Some mpi_example) (Some pt_example) (Some mpi_example) (Some pt_example))) =
     world0"
proof -
  have a: "GET_WORD_LEN (grp_pbits grp_secp256r1) \<le> PKE_OPERAND_MAX_WORD_LEN (engine_answering rc)" for rc
    by (simp add: example_group_facts)
  have b: "ecp_get_type grp_secp256r1 = ECP_TYPE_SHORT_WEIERSTRASS"
    and c: "eccp_curve_get grp_secp256r1 = Some secp256r1"
    and d: "ecp_get_type grp_curve25519 \<noteq> ECP_TYPE_SHORT_WEIERSTRASS"
    by (simp_all add: example_group_facts)
  have e1: "pke_eccp_point_mul (engine_answering rc) h secp256r1 k x y = (rc, x, y, Suc h)" for rc h k x y
    by simp
  have e3: "pke_eccp_point_add (engine_answering rc) h secp256r1 x y x' y' = (rc, x, y, Suc h)" for rc h x y x' y'
    by simp
  note t = muladd_one_locked_section [where w = world0 and c = secp256r1
             and R = pt_init and m = mpi_example and P = pt_example and n = mpi_example
             and Q = pt_example]
  note t1 = t [where g = grp_secp256r1 and pf = "engine_answering PKE_SUCCESS"
             and grp' = "Some grp_secp256r1" and R' = None and m' = "Some mpi_example"
             and P' = "Some pt_example" and n' = "Some mpi_example" and Q' = "Some pt_example",
             OF refl refl refl refl refl refl e1 refl e1 e3 refl]
  note t2 = t [where g = grp_secp256r1 and pf = "engine_answering PKE_ENGINE_FAULT"
             and grp' = None, OF refl refl refl refl refl refl e1 refl e1 e3 refl]
  note t3 = t [where g = grp_curve25519 and pf = "engine_answering PKE_SUCCESS"
             and grp' = None, OF refl refl refl refl refl refl e1 refl e1 e3 refl]
  from t1 t2 t3
       a [of PKE_SUCCESS] a [of PKE_ENGINE_FAULT] b c d
  show ?thesis
    by (simp add: world0_def example_group_facts stack_array_engine_answering pt_example_def
          enc_example_def [symmetric] numeral_3_eq_3 locked_section_shapes)
qed

text \<open>
  Claim C10. The three operations discard the code of \<open>mbedtls_mpi_write_binary_le\<close>. On
  a registered short-Weierstrass curve, when the encoding of \<open>pt->X\<close> (in
  \<open>check_pubkey\<close>), of the scalar \<open>m\<close> (in \<open>mul\<close>) or of \<open>P->X\<close> (in \<open>muladd\<close>) fails with
  \<open>MBEDTLS_ERR_MPI_BUFFER_TOO_SMALL\<close>, the operation does not return that code: it takes
  the lock and calls the engine, and the operand it passes for the value that did not
  fit is the local array as it was found, never written.
\<close>

theorem encode_failure_ignored:
  assumes "GET_WORD_LEN (grp_pbits g) \<le> PKE_OPERAND_MAX_WORD_LEN pf"
    and "ecp_get_type g = ECP_TYPE_SHORT_WEIERSTRASS"
    and "eccp_curve_get g = Some c"
    and "wl = GET_WORD_LEN (grp_pbits g)"
  shows
    "(fst (mbedtls_mpi_write_binary_le (pt_X p) (stack_array pf 0 wl) (wl * 4)) =
        MBEDTLS_ERR_MPI_BUFFER_TOO_SMALL \<longrightarrow>
      fst (ecp_alt_b91_backend_check_pubkey pf w (Some g) (Some p)) \<noteq> MBEDTLS_ERR_MPI_BUFFER_TOO_SMALL \<and>
      trace (fst (snd (ecp_alt_b91_backend_check_pubkey pf w (Some g) (Some p)))) =
        trace w @ [EV_lock,
                   EV_eccp_point_verify c (stack_array pf 0 wl)
                     (snd (mbedtls_mpi_write_binary_le (pt_Y p) (stack_array pf 1 wl) (wl * 4))),
                   EV_unlock]) \<and>
     (fst (mbedtls_mpi_write_binary_le m (stack_array pf 0 wl) (wl * 4)) =
        MBEDTLS_ERR_MPI_BUFFER_TOO_SMALL \<longrightarrow>
      fst (ecp_alt_b91_backend_mul pf w (Some g) (Some R) (Some m) (Some P)) \<noteq>
        MBEDTLS_ERR_MPI_BUFFER_TOO_SMALL \<and>
      trace (fst (snd (ecp_alt_b91_backend_mul pf w (Some g) (Some R) (Some m) (Some P)))) =
        trace w @ [EV_lock,
                   EV_eccp_point_mul c (stack_array pf 0 wl)
                     (snd (mbedtls_mpi_write_binary_le (pt_X P) (stack_array pf 1 wl) (wl * 4)))
                     (snd (mbedtls_mpi_write_binary_le (pt_Y P) (stack_array pf 2 wl) (wl * 4))),
                   EV_unlock]) \<and>
     (fst (mbedtls_mpi_write_binary_le (pt_X P) (stack_array pf 1 wl) (wl * 4)) =
        MBEDTLS_ERR_MPI_BUFFER_TOO_SMALL \<longrightarrow>
      fst (ecp_alt_b91_backend_muladd pf w (Some g) (Some R) (Some m) (Some P) (Some n) (Some Q)) \<noteq>
        MBEDTLS_ERR_MPI_BUFFER_TOO_SMALL \<and>
      take 2 (drop (length (trace w))
        (trace (fst (snd (ecp_alt_b91_backend_muladd pf w (Some g) (Some R) (Some m) (Some P)
                            (Some n) (Some Q)))))) =
        [EV_lock,
         EV_eccp_point_mul c
           (snd (mbedtls_mpi_write_binary_le m (stack_array pf 0 wl) (wl * 4)))
           (stack_array pf 1 wl)
           (snd (mbedtls_mpi_write_binary_le (pt_Y P) (stack_array pf 2 wl) (wl * 4)))])"
proof -
  note le = assms(1) and sw = assms(2) and c = assms(3)
  note cp = check_pubkey_engine [OF le sw c refl refl surjective_pairing]
  note ml = mul_weierstrass_engine [OF le sw c refl refl refl refl quad_collapse]
  note ma = muladd_engine [OF le sw c refl refl refl refl refl refl quad_collapse refl
              quad_collapse quad_collapse]
  show ?thesis
    unfolding assms(4) cp ml ma
    by (auto dest: write_binary_le_fail_keeps)
qed

text \<open>
  The value \<open>2 ^ 256\<close> (nine limbs) does not fit the 32 bytes of secp256r1: the engine is
  called with the 32 bytes \<open>0xAA\<close> the array held, and \<open>check_pubkey\<close> returns 0 on its
  answer.
\<close>

theorem encode_failure_ignored_witness:
  "GET_WORD_LEN (grp_pbits grp_secp256r1) \<le> PKE_OPERAND_MAX_WORD_LEN (engine_answering PKE_SUCCESS) \<and>
   ecp_get_type grp_secp256r1 = ECP_TYPE_SHORT_WEIERSTRASS \<and>
   eccp_curve_get grp_secp256r1 = Some secp256r1 \<and>
   fst (mbedtls_mpi_write_binary_le (pt_X pt_wide) (stack_array (engine_answering PKE_SUCCESS) 0 8) (8 * 4)) =
     MBEDTLS_ERR_MPI_BUFFER_TOO_SMALL \<and>
   fst (mbedtls_mpi_write_binary_le mpi_wide (stack_array (engine_answering PKE_SUCCESS) 0 8) (8 * 4)) =
     MBEDTLS_ERR_MPI_BUFFER_TOO_SMALL \<and>
   fst (mbedtls_mpi_write_binary_le (pt_X pt_wide) (stack_array (engine_answering PKE_SUCCESS) 1 8) (8 * 4)) =
     MBEDTLS_ERR_MPI_BUFFER_TOO_SMALL \<and>
   fst (ecp_alt_b91_backend_check_pubkey (engine_answering PKE_SUCCESS) world0
          (Some grp_secp256r1) (Some pt_wide)) = RET_OK \<and>
   trace (fst (snd (ecp_alt_b91_backend_check_pubkey (engine_answering PKE_SUCCESS) world0
          (Some grp_secp256r1) (Some pt_wide)))) =
     [EV_lock,
      EV_eccp_point_verify secp256r1 (replicate 32 0xAA)
        (snd (mbedtls_mpi_write_binary_le mpi_example (replicate 32 0xAA) 32)),
      EV_unlock] \<and>
   trace (fst (snd (ecp_alt_b91_backend_mul (engine_answering PKE_SUCCESS) world0
          (Some grp_secp256r1) (Some pt_example) (Some mpi_wide) (Some pt_example)))) =
     [EV_lock,
      EV_eccp_point_mul secp256r1 (replicate 32 0xAA)
        (snd (mbedtls_mpi_write_binary_le mpi_example (replicate 32 0xAA) 32))
        (snd (mbedtls_mpi_write_binary_le mpi_example (replicate 32 0xAA) 32)),
      EV_unlock] \<and>
   take 2 (trace (fst (snd (ecp_alt_b91_backend_muladd (engine_answering PKE_SUCCESS) world0
          (Some grp_secp256r1) (Some pt_example) (Some mpi_example) (Some pt_wide)
          (Some mpi_example) (Some pt_example))))) =
     [EV_lock,
      EV_eccp_point_mul secp256r1
        (snd (mbedtls_mpi_write_binary_le mpi_example (replicate 32 0xAA) 32))
        (replicate 32 0xAA)
        (snd (mbedtls_mpi_write_binary_le mpi_example (replicate 32 0xAA) 32))]"
proof -
  have a: "GET_WORD_LEN (grp_pbits grp_secp256r1) \<le> PKE_OPERAND_MAX_WORD_LEN (engine_answering PKE_SUCCESS)"
    by (simp add: example_group_facts)
  have b: "ecp_get_type grp_secp256r1 = ECP_TYPE_SHORT_WEIERSTRASS"
    and c: "eccp_curve_get grp_secp256r1 = Some secp256r1"
    by (simp_all add: example_group_facts)
  have wl: "8 = GET_WORD_LEN (grp_pbits grp_secp256r1)"
    by (simp add: example_group_facts)
  have f: "fst (mbedtls_mpi_write_binary_le mpi_wide (stack_array (engine_answering PKE_SUCCESS) k 8) (8 * 4)) =
     MBEDTLS_ERR_MPI_BUFFER_TOO_SMALL" for k
    using mpi_wide_too_small [of "stack_array (engine_answering PKE_SUCCESS) k 8"] by simp
  have ok: "fst (ecp_alt_b91_backend_check_pubkey (engine_answering PKE_SUCCESS) world0
          (Some grp_secp256r1) (Some pt_wide)) = RET_OK"
    by (simp add: check_pubkey_engine [OF a b c refl refl surjective_pairing])
  note t = encode_failure_ignored [OF a b c wl, where w = world0]
  from t [where p = pt_wide and m = mpi_wide and P = pt_example and R = pt_example
            and n = mpi_example and Q = pt_example]
       t [where p = pt_wide and m = mpi_example and P = pt_wide and R = pt_example
            and n = mpi_example and Q = pt_example]
       f a b c ok
  show ?thesis
    by (simp add: pt_wide_def pt_example_def world0_def stack_array_engine_answering)
qed

end
